theory Spec2Isabelle
  imports Complex_Main "HOL-Library.Word"
begin

chapter \<open>The model\<close>

section \<open>Python values, errors and JSON documents\<close>

text \<open>
  The parameter record is a Python dataclass: its fields are not type-checked at run
  time, and \<open>load_preset\<close> writes whatever a document holds into them. Field values
  are therefore modelled as dynamically typed Python values. A \<open>dict\<close> is an
  association list in insertion order with pairwise distinct keys.
\<close>

datatype py_error =
  TypeError | ValueError | AttributeError | IndexError | ZeroDivisionError | JSONDecodeError

text \<open>Python's \<open>int(x)\<close> on a float truncates towards zero.\<close>

definition py_int :: "real \<Rightarrow> int" where
  "py_int r = (if 0 \<le> r then \<lfloor>r\<rfloor> else \<lceil>r\<rceil>)"

datatype pyval =
    PNone
  | PBool bool
  | PInt int
  | PFloat real
  | PStr string
  | PList "pyval list"
  | PTuple "pyval list"
  | PDict "(string \<times> pyval) list"

text \<open>
  A JSON document is modelled by its parse tree; the \<open>json\<close> library's printer and
  parser are taken to be inverse to each other on parse trees (numbers print with
  \<open>repr\<close>, which Python reads back exactly). What the library does to the
  \<^emph>\<open>types\<close> is kept: \<open>json.dumps\<close> writes a tuple and a list as the same array, and
  \<open>json.loads\<close> reads every array as a list and keeps the last binding of a repeated
  key.
\<close>

datatype json =
    JNull
  | JBool bool
  | JInt int
  | JFloat real
  | JString string
  | JArray "json list"
  | JObject "(string \<times> json) list"

primrec dict_set :: "(string \<times> pyval) list \<Rightarrow> string \<Rightarrow> pyval \<Rightarrow> (string \<times> pyval) list" where
  "dict_set [] k v = [(k, v)]"
| "dict_set (p # ps) k v = (if fst p = k then (k, v) # ps else p # dict_set ps k v)"

definition dict_of_items :: "(string \<times> pyval) list \<Rightarrow> (string \<times> pyval) list" where
  "dict_of_items kvs = fold (\<lambda>kv d. dict_set d (fst kv) (snd kv)) kvs []"


primrec json_loads :: "json \<Rightarrow> pyval" where
  "json_loads JNull = PNone"
| "json_loads (JBool b) = PBool b"
| "json_loads (JInt i) = PInt i"
| "json_loads (JFloat r) = PFloat r"
| "json_loads (JString s) = PStr s"
| "json_loads (JArray xs) = PList (map json_loads xs)"
| "json_loads (JObject kvs) = PDict (dict_of_items (map (map_prod id json_loads) kvs))"

section \<open>core/terrain\_params.py: the parameter record\<close>

text \<open>
  The generator reads the fields at their annotated types; \<open>TerrainParams\<close> is the
  record at those types (\<open>size\<close> is \<open>(width, height)\<close>). An instance as Python holds
  it is its attribute dictionary \<open>params_obj\<close>, the fields in declaration order;
  \<open>obj_of\<close> writes a typed record as such an instance.
\<close>

record TerrainParams =
  size_p :: "int \<times> int"
  seed :: "int option"
  tectonic_uplift :: real
  tectonic_pattern :: string
  rock_hardness :: real
  terrain_age :: real
  precipitation :: real
  temperature :: real
  wind_intensity :: real
  distance_to_coast :: real
  num_regions :: int
  region_contrast :: real
  erosion_iterations :: int
  river_intensity :: real
  glacial_intensity :: real

type_synonym params_obj = "(string \<times> pyval) list"

definition field_defaults :: params_obj where
  "field_defaults =
    [(''size'', PTuple [PInt 1024, PInt 1024]),
     (''seed'', PNone),
     (''tectonic_uplift'', PFloat 0.7),
     (''tectonic_pattern'', PStr ''convergent''),
     (''rock_hardness'', PFloat 0.5),
     (''terrain_age'', PFloat 0.7),
     (''precipitation'', PFloat 0.6),
     (''temperature'', PFloat 0.4),
     (''wind_intensity'', PFloat 0.3),
     (''distance_to_coast'', PFloat 0.5),
     (''num_regions'', PInt 4),
     (''region_contrast'', PFloat 0.6),
     (''erosion_iterations'', PInt 10),
     (''river_intensity'', PFloat 0.8),
     (''glacial_intensity'', PFloat 0.3)]"

definition field_names :: "string list" where
  "field_names = map fst field_defaults"

definition method_names :: "string list" where
  "method_names = [''__post_init__'', ''to_dict'', ''to_json'', ''from_dict'', ''from_json'']"

definition obj_of :: "TerrainParams \<Rightarrow> params_obj" where
  "obj_of p =
    [(''size'', PTuple [PInt (fst (size_p p)), PInt (snd (size_p p))]),
     (''seed'', (case seed p of None \<Rightarrow> PNone | Some s \<Rightarrow> PInt s)),
     (''tectonic_uplift'', PFloat (tectonic_uplift p)),
     (''tectonic_pattern'', PStr (tectonic_pattern p)),
     (''rock_hardness'', PFloat (rock_hardness p)),
     (''terrain_age'', PFloat (terrain_age p)),
     (''precipitation'', PFloat (precipitation p)),
     (''temperature'', PFloat (temperature p)),
     (''wind_intensity'', PFloat (wind_intensity p)),
     (''distance_to_coast'', PFloat (distance_to_coast p)),
     (''num_regions'', PInt (num_regions p)),
     (''region_contrast'', PFloat (region_contrast p)),
     (''erosion_iterations'', PInt (erosion_iterations p)),
     (''river_intensity'', PFloat (river_intensity p)),
     (''glacial_intensity'', PFloat (glacial_intensity p))]"

text \<open>Python's \<open>v == 0\<close>: true of the integer, the float and \<open>False\<close>.\<close>

definition py_eq_zero :: "pyval \<Rightarrow> bool" where
  "py_eq_zero v = (case v of PInt i \<Rightarrow> i = 0 | PFloat r \<Rightarrow> r = 0 | PBool b \<Rightarrow> \<not> b | _ \<Rightarrow> False)"

definition post_init :: "params_obj \<Rightarrow> params_obj" where
  "post_init obj =
    (let obj1 = (case map_of obj ''size'' of
                   Some (PList xs) \<Rightarrow> dict_set obj ''size'' (PTuple xs)
                 | _ \<Rightarrow> obj);
         obj2 = (case map_of obj1 ''seed'' of
                   Some v \<Rightarrow> if py_eq_zero v then dict_set obj1 ''seed'' PNone else obj1
                 | None \<Rightarrow> obj1)
     in obj2)"

text \<open>
  \<open>cls(**data)\<close>: the generated \<open>__init__\<close> takes the fields as keyword arguments,
  each with its default, rejects any other keyword with \<open>TypeError\<close>, and runs
  \<open>__post_init__\<close>.
\<close>

definition init_fields :: "(string \<times> pyval) list \<Rightarrow> params_obj" where
  "init_fields kwargs =
    map (\<lambda>fd. (fst fd, (case map_of kwargs (fst fd) of Some v \<Rightarrow> v | None \<Rightarrow> snd fd)))
      field_defaults"

definition TerrainParams_init :: "(string \<times> pyval) list \<Rightarrow> py_error + params_obj" where
  "TerrainParams_init kwargs =
    (if \<exists>k \<in> set (map fst kwargs). k \<notin> set field_names then Inl TypeError
     else Inr (post_init (init_fields kwargs)))"

text \<open>\<open>TerrainParams()\<close> at the annotated types: the record of the field defaults.\<close>

definition default_record :: TerrainParams where
  "default_record = \<lparr> size_p = (1024, 1024), seed = None, tectonic_uplift = 0.7,
     tectonic_pattern = ''convergent'', rock_hardness = 0.5, terrain_age = 0.7, precipitation = 0.6,
     temperature = 0.4, wind_intensity = 0.3, distance_to_coast = 0.5, num_regions = 4,
     region_contrast = 0.6, erosion_iterations = 10, river_intensity = 0.8, glacial_intensity = 0.3 \<rparr>"



text \<open>
  The first statement of \<open>from_dict\<close>: a list under the key \<open>size\<close> becomes a tuple.
  A \<open>data\<close> that is no dictionary cannot be passed as keyword arguments (\<open>TypeError\<close>).
\<close>

definition size_as_tuple :: "(string \<times> pyval) list \<Rightarrow> (string \<times> pyval) list" where
  "size_as_tuple d =
    (case map_of d ''size'' of Some (PList xs) \<Rightarrow> dict_set d ''size'' (PTuple xs) | _ \<Rightarrow> d)"

definition from_dict :: "pyval \<Rightarrow> py_error + params_obj" where
  "from_dict data =
    (case data of
       PDict d \<Rightarrow> TerrainParams_init (size_as_tuple d)
     | _ \<Rightarrow> Inl TypeError)"

definition from_json :: "json \<Rightarrow> py_error + params_obj" where
  "from_json json_str = from_dict (json_loads json_str)"

section \<open>presets/preset\_manager.py\<close>

text \<open>
  The presets directory maps a preset name to the content of \<open><name>.json\<close>, when
  that file exists: a text that parses to a document, or one that does not.
  \<open>hasattr\<close> holds of the fields and of the methods the class declares (the
  attributes every Python object inherits are left out of the model).
\<close>

datatype file_content = Unparsable | Parsed json

definition hasattr :: "params_obj \<Rightarrow> string \<Rightarrow> bool" where
  "hasattr params key \<longleftrightarrow> key \<in> set (map fst params) \<or> key \<in> set method_names"

definition load_preset :: "(string \<rightharpoonup> file_content) \<Rightarrow> string \<Rightarrow> py_error + params_obj" where
  "load_preset presets_dir preset_name =
    (case presets_dir preset_name of
       None \<Rightarrow> TerrainParams_init []
     | Some Unparsable \<Rightarrow> Inl JSONDecodeError
     | Some (Parsed doc) \<Rightarrow>
         (case json_loads doc of
            PDict params_dict \<Rightarrow>
              (case TerrainParams_init [] of
                 Inl e \<Rightarrow> Inl e
               | Inr params \<Rightarrow>
                   Inr (fold (\<lambda>kv ps. if hasattr ps (fst kv) then dict_set ps (fst kv) (snd kv) else ps)
                          params_dict params))
          | _ \<Rightarrow> Inl AttributeError))"

section \<open>ui/preview\_canvas.py: view state and input events\<close>

text \<open>
  The view state of the canvas and the two handlers that change the zoom level.
  Floating-point numbers are modelled as reals throughout.
\<close>

datatype key = Key_Space | Key_G | Key_A | Key_R | Key_Equal | Key_Plus | Key_Minus
  | Key_Underscore | Key_Other

record PreviewCanvas =
  show_grid :: bool
  show_axes :: bool
  view_mode :: string
  zoom_level :: real
  pan_offset :: "int \<times> int"
  rotation_x :: real
  rotation_y :: real

definition PreviewCanvas_init :: PreviewCanvas where
  "PreviewCanvas_init = \<lparr> show_grid = False, show_axes = True, view_mode = ''2D'',
     zoom_level = 1.0, pan_offset = (0, 0), rotation_x = 30.0, rotation_y = 45.0 \<rparr>"

definition wheelEvent :: "int \<Rightarrow> PreviewCanvas \<Rightarrow> PreviewCanvas" where
  "wheelEvent delta c =
    (if view_mode c = ''2D'' then
       (let zoom_factor = (if delta > 0 then 1.1 else 0.9);
            z = zoom_level c * zoom_factor
        in c\<lparr>zoom_level := max 0.1 (min 10.0 z)\<rparr>)
     else c)"

definition keyPressEvent :: "key \<Rightarrow> PreviewCanvas \<Rightarrow> PreviewCanvas" where
  "keyPressEvent k c =
    (if k = Key_Space then c\<lparr>view_mode := (if view_mode c = ''2D'' then ''3D'' else ''2D'')\<rparr>
     else if k = Key_G then c\<lparr>show_grid := \<not> show_grid c\<rparr>
     else if k = Key_A then c\<lparr>show_axes := \<not> show_axes c\<rparr>
     else if k = Key_R then
       c\<lparr>zoom_level := 1.0, pan_offset := (0, 0), rotation_x := 30.0, rotation_y := 45.0\<rparr>
     else if k = Key_Equal \<or> k = Key_Plus then c\<lparr>zoom_level := zoom_level c * 1.1\<rparr>
     else if k = Key_Minus \<or> k = Key_Underscore then c\<lparr>zoom_level := zoom_level c * 0.9\<rparr>
     else c)"

section \<open>utils/image\_utils.py: generate\_texture\<close>

text \<open>
  The texture is a \<open>uint8\<close> array, zero-initialised; \<open>int(...)\<close> truncates towards
  zero. \<open>ramp_color\<close> is the inner loop over neighbouring stops with its \<open>break\<close>:
  \<open>None\<close> when no pair brackets the elevation, and then the pixel keeps its zeros.
\<close>

type_synonym rgb = "int \<times> int \<times> int"
type_synonym pixel = "8 word \<times> 8 word \<times> 8 word"

definition terrain_ramp :: "(real \<times> rgb) list" where
  "terrain_ramp =
    [(0.0, (10, 10, 80)), (0.2, (30, 30, 200)), (0.25, (240, 240, 100)), (0.35, (50, 180, 50)),
     (0.5, (34, 139, 34)), (0.7, (139, 90, 43)), (0.85, (100, 100, 100)), (1.0, (255, 255, 255))]"

definition desert_ramp :: "(real \<times> rgb) list" where
  "desert_ramp = [(0.0, (210, 180, 140)), (0.7, (160, 120, 80)), (1.0, (255, 255, 255))]"

definition grayscale_ramp :: "(real \<times> rgb) list" where
  "grayscale_ramp = [(0.0, (0, 0, 0)), (1.0, (255, 255, 255))]"

definition colormaps :: "(string \<times> (real \<times> rgb) list) list" where
  "colormaps = [(''terrain'', terrain_ramp), (''desert'', desert_ramp), (''grayscale'', grayscale_ramp)]"

definition lerp_color :: "real \<times> rgb \<Rightarrow> real \<times> rgb \<Rightarrow> real \<Rightarrow> rgb" where
  "lerp_color a b height_val =
    (let t = (height_val - fst a) / (fst b - fst a + 1 / 10 ^ 8);
         ca = snd a; cb = snd b
     in (py_int (real_of_int (fst ca) * (1 - t) + real_of_int (fst cb) * t),
         py_int (real_of_int (fst (snd ca)) * (1 - t) + real_of_int (fst (snd cb)) * t),
         py_int (real_of_int (snd (snd ca)) * (1 - t) + real_of_int (snd (snd cb)) * t)))"

fun ramp_color :: "(real \<times> rgb) list \<Rightarrow> real \<Rightarrow> rgb option" where
  "ramp_color (a # b # rest) height_val =
    (if fst a \<le> height_val \<and> height_val \<le> fst b then Some (lerp_color a b height_val)
     else ramp_color (b # rest) height_val)"
| "ramp_color _ height_val = None"

definition texture_pixel :: "(real \<times> rgb) list \<Rightarrow> real \<Rightarrow> pixel" where
  "texture_pixel cmap height_val =
    (case ramp_color cmap height_val of
       None \<Rightarrow> (0, 0, 0)
     | Some (r, g, b) \<Rightarrow> (word_of_int r, word_of_int g, word_of_int b))"

definition generate_texture :: "real list list option \<Rightarrow> string \<Rightarrow> pixel list list option" where
  "generate_texture heightmap colormap =
    (case heightmap of
       None \<Rightarrow> None
     | Some hm \<Rightarrow>
         (let cmap = (case map_of colormaps colormap of Some c \<Rightarrow> c | None \<Rightarrow> terrain_ramp)
          in Some (map (map (texture_pixel cmap)) hm)))"

section \<open>core/terrain\_generator.py: arrays, libraries and the generator's state\<close>

text \<open>
  A two-dimensional array is the list of its rows, shape \<open>(height, width)\<close>.
  Floating-point numbers are modelled as reals, so rounding, \<open>NaN\<close> and infinities
  are outside the model. An exception is a value \<open>Inl e\<close>; \<open>ebind\<close> sequences two
  steps and stops at the first exception.
\<close>

type_synonym array2 = "real list list"

definition ebind :: "'e + 'a \<Rightarrow> ('a \<Rightarrow> 'e + 'b) \<Rightarrow> 'e + 'b" where
  "ebind m f = (case m of Inl e \<Rightarrow> Inl e | Inr a \<Rightarrow> f a)"

fun fold_err :: "('a \<Rightarrow> 'b \<Rightarrow> 'e + 'b) \<Rightarrow> 'a list \<Rightarrow> 'b \<Rightarrow> 'e + 'b" where
  "fold_err f [] s = Inr s"
| "fold_err f (x # xs) s = (case f x s of Inl e \<Rightarrow> Inl e | Inr s' \<Rightarrow> fold_err f xs s')"

definition tabulate2 :: "nat \<Rightarrow> nat \<Rightarrow> (nat \<Rightarrow> nat \<Rightarrow> 'a) \<Rightarrow> 'a list list" where
  "tabulate2 h w f = map (\<lambda>y. map (\<lambda>x. f y x) [0..<w]) [0..<h]"

definition amap :: "('a \<Rightarrow> 'b) \<Rightarrow> 'a list list \<Rightarrow> 'b list list" where
  "amap f a = map (map f) a"

definition amap2 :: "('a \<Rightarrow> 'b \<Rightarrow> 'c) \<Rightarrow> 'a list list \<Rightarrow> 'b list list \<Rightarrow> 'c list list" where
  "amap2 f a b = map2 (map2 f) a b"

definition shape_of :: "'a list list \<Rightarrow> nat \<times> nat" where
  "shape_of a = (length a, if a = [] then 0 else length (hd a))"

definition has_shape :: "'a list list \<Rightarrow> nat \<Rightarrow> nat \<Rightarrow> bool" where
  "has_shape a h w \<longleftrightarrow> length a = h \<and> list_all (\<lambda>row. length row = w) a"

definition aset :: "'a list list \<Rightarrow> nat \<Rightarrow> nat \<Rightarrow> 'a \<Rightarrow> 'a list list" where
  "aset a y x v = a[y := (a ! y)[x := v]]"

definition amin :: "array2 \<Rightarrow> real" where
  "amin a = Min (set (concat a))"

definition amax :: "array2 \<Rightarrow> real" where
  "amax a = Max (set (concat a))"

text \<open>
  The rescaling every stage ends with,
  \<open>(a - np.min(a)) / (np.max(a) - np.min(a) + 1e-8)\<close>; \<open>np.min\<close> of an array with
  no element raises \<open>ValueError\<close>.
\<close>

definition rescale_eps :: "array2 \<Rightarrow> py_error + array2" where
  "rescale_eps a =
    (if concat a = [] then Inl ValueError
     else Inr (amap (\<lambda>v. (v - amin a) / (amax a - amin a + 1 / 10 ^ 8)) a))"

text \<open>
  The libraries the generator calls are not part of the repository; they are a
  parameter of the model, and every theorem holds for every library. What is fixed
  is the contract a result is used under:
  \<^item> \<open>np_RandomState seed\<close> is the state of \<open>numpy.random.RandomState(seed)\<close>, which
    accepts seeds in \<open>[0, 2^32)\<close>; each draw returns a value and the next state;
  \<^item> \<open>randn\<close>, \<open>zoom\<close> and \<open>gaussian_filter\<close> give the value of each cell of their
    result, whose shape is the one the library documents (\<open>zoom\<close>: the input shape
    times the factor, rounded);
  \<^item> \<open>randint(low, high)\<close> raises \<open>ValueError\<close> unless \<open>low < high\<close> and returns a
    value in \<open>[low, high)\<close> (\<open>rs_randint\<close>);
  \<^item> \<open>py_random_randint\<close> is \<open>random.randint\<close> of Python's process-wide generator,
    whose state is \<open>'s\<close>.
\<close>

record ('g, 's) numlib =
  np_RandomState :: "int \<Rightarrow> 'g"
  np_randn :: "'g \<Rightarrow> nat \<Rightarrow> nat \<Rightarrow> (nat \<Rightarrow> nat \<Rightarrow> real) \<times> 'g"
  np_randint :: "'g \<Rightarrow> int \<Rightarrow> int \<Rightarrow> int \<times> 'g"
  np_uniform :: "'g \<Rightarrow> real \<Rightarrow> real \<Rightarrow> real \<times> 'g"
  py_random_randint :: "'s \<Rightarrow> int \<Rightarrow> int \<Rightarrow> int \<times> 's"
  ndimage_zoom :: "array2 \<Rightarrow> real \<times> real \<Rightarrow> nat \<Rightarrow> nat \<Rightarrow> real"
  ndimage_gaussian_filter :: "array2 \<Rightarrow> real \<Rightarrow> nat \<Rightarrow> nat \<Rightarrow> real"

definition rs_randint :: "('g, 's) numlib \<Rightarrow> 'g \<Rightarrow> int \<Rightarrow> int \<Rightarrow> py_error + (int \<times> 'g)" where
  "rs_randint L g low high =
    (if high \<le> low then Inl ValueError
     else (let r = np_randint L g low high
           in Inr (low + (fst r - low) mod (high - low), snd r)))"

definition gaussian_filter :: "('g, 's) numlib \<Rightarrow> array2 \<Rightarrow> real \<Rightarrow> array2" where
  "gaussian_filter L a sigma =
    map (\<lambda>y. map (\<lambda>x. ndimage_gaussian_filter L a sigma y x) [0..<length (a ! y)]) [0..<length a]"

text \<open>
  The state a run threads: \<open>self.rng\<close> of the generator object (\<open>None\<close> until
  \<open>_init_random\<close> has run) and the state of Python's process-wide generator.
\<close>

record ('g, 's) gen_state =
  rng :: "'g option"
  sysrand :: 's

definition seed_rng :: "('g, 's) numlib \<Rightarrow> int option \<Rightarrow> 's \<Rightarrow> py_error + (int \<times> 'g \<times> 's)" where
  "seed_rng L seed0 sys =
    (let drawn = (case seed0 of
                    None \<Rightarrow> (let r = py_random_randint L sys 0 (2 ^ 31 - 1)
                             in (fst r mod 2 ^ 31, snd r))
                  | Some s \<Rightarrow> (s, sys));
         sd = fst drawn
     in if 0 \<le> sd \<and> sd < 2 ^ 32 then Inr (sd, np_RandomState L sd, snd drawn)
        else Inl ValueError)"

definition init_random ::
  "('g, 's) numlib \<Rightarrow> int option \<Rightarrow> ('g, 's) gen_state \<Rightarrow> py_error + (int \<times> ('g, 's) gen_state)" where
  "init_random L seed0 st =
    ebind (seed_rng L seed0 (sysrand st))
      (\<lambda>(sd, g, sys'). Inr (sd, \<lparr> rng = Some g, sysrand = sys' \<rparr>))"

text \<open>
  A direct use of \<open>self.rng\<close>: \<open>None\<close> has no attribute \<open>randint\<close> or \<open>uniform\<close>.
\<close>

definition with_rng ::
  "('g, 's) gen_state \<Rightarrow> ('g \<Rightarrow> py_error + ('a \<times> 'g)) \<Rightarrow> py_error + ('a \<times> ('g, 's) gen_state)" where
  "with_rng st f =
    (case rng st of
       None \<Rightarrow> Inl AttributeError
     | Some g \<Rightarrow> ebind (f g) (\<lambda>r. Inr (fst r, st\<lparr>rng := Some (snd r)\<rparr>)))"

subsection \<open>Fractal noise\<close>

text \<open>
  One octave of \<open>_perlin_noise_2d\<close>. \<open>zoom\<close> returns the shape
  \<open>round(grid * (size / grid)) = size\<close>, so the crop \<open>[:height, :width]\<close> that
  follows it changes nothing.
\<close>

definition perlin_octave ::
  "('g, 's) numlib \<Rightarrow> nat \<Rightarrow> nat \<Rightarrow> real \<Rightarrow> real \<Rightarrow> nat \<Rightarrow> array2 \<times> 'g \<Rightarrow> array2 \<times> 'g" where
  "perlin_octave L height width scale persistence octave acc =
    (let freq = (2::real) ^ octave;
         amplitude = persistence ^ octave;
         octave_scale = scale / freq;
         grid_size_x = nat (max 4 (py_int (real width * octave_scale)));
         grid_size_y = nat (max 4 (py_int (real height * octave_scale)));
         drawn = np_randn L (snd acc) grid_size_y grid_size_x;
         small_noise = tabulate2 grid_size_y grid_size_x (fst drawn);
         zoom_factor = (real height / real grid_size_y, real width / real grid_size_x);
         octave_noise = tabulate2 height width (ndimage_zoom L small_noise zoom_factor);
         octave_noise1 =
           (if amax octave_noise > amin octave_noise
            then amap (\<lambda>v. (v - amin octave_noise) / (amax octave_noise - amin octave_noise) * 2 - 1)
                   octave_noise
            else octave_noise)
     in (amap2 (+) (fst acc) (amap (\<lambda>v. v * amplitude) octave_noise1), snd drawn))"

definition perlin_noise_2d ::
  "('g, 's) numlib \<Rightarrow> int \<times> int \<Rightarrow> real \<Rightarrow> nat \<Rightarrow> real \<Rightarrow> ('g, 's) gen_state
    \<Rightarrow> py_error + (array2 \<times> ('g, 's) gen_state)" where
  "perlin_noise_2d L shape scale octaves persistence st =
    ebind (case rng st of
             Some g \<Rightarrow> Inr (g, sysrand st)
           | None \<Rightarrow> ebind (seed_rng L None (sysrand st)) (\<lambda>(sd, g, sys'). Inr (g, sys')))
      (\<lambda>(g, sys1).
         if fst shape \<le> 0 \<or> snd shape \<le> 0 then Inl ValueError
         else
           (let height = nat (fst shape); width = nat (snd shape);
                res = fold (perlin_octave L height width scale persistence) [0..<octaves]
                        (tabulate2 height width (\<lambda>y x. 0), g);
                noise = fst res;
                noise1 = (if amax noise > amin noise
                          then amap (\<lambda>v. (v - amin noise) / (amax noise - amin noise)) noise
                          else noise)
            in Inr (noise1, \<lparr> rng = Some (snd res), sysrand = sys1 \<rparr>)))"

subsection \<open>Stage 1: the tectonic base\<close>

definition ridge_profile :: "int \<Rightarrow> int \<Rightarrow> int \<Rightarrow> real" where
  "ridge_profile mountain_width pos_y y =
    (let distance_y = real_of_int \<bar>y - pos_y\<bar>;
         main = (if distance_y < real_of_int (mountain_width * 4)
                 then exp (- (distance_y ^ 2) / real_of_int (2 * mountain_width ^ 2)) else 0);
         secondary_width = real_of_int mountain_width * 1.2;
         secondary_offset = py_int (real_of_int mountain_width * 1.5);
         distance_top = real_of_int \<bar>y - (pos_y - secondary_offset)\<bar>;
         top = (if distance_top < secondary_width * 3
                then 0.5 * exp (- (distance_top ^ 2) / (2 * secondary_width ^ 2)) else 0);
         distance_bottom = real_of_int \<bar>y - (pos_y + secondary_offset)\<bar>;
         bottom = (if distance_bottom < secondary_width * 3
                   then 0.5 * exp (- (distance_bottom ^ 2) / (2 * secondary_width ^ 2)) else 0)
     in main + top + bottom)"

definition longitudinal_var :: "int \<Rightarrow> nat \<Rightarrow> nat \<Rightarrow> real" where
  "longitudinal_var width i x =
    sin (real x / real_of_int width * pi * 3) * 0.15
    + sin (real x / real_of_int width * pi * 7 + real i) * 0.10 + 0.75"

definition generate_mountain_belt ::
  "('g, 's) numlib \<Rightarrow> int \<times> int \<Rightarrow> TerrainParams \<Rightarrow> ('g, 's) gen_state
    \<Rightarrow> py_error + (array2 \<times> ('g, 's) gen_state)" where
  "generate_mountain_belt L shape params st =
    (let height = fst shape; width = snd shape;
         num_mountains = max 3 (3 + py_int (tectonic_uplift params * 6));
         base_width = real_of_int height / real_of_int (num_mountains * 3);
         mountain_width = py_int (base_width * (0.8 + tectonic_uplift params * 0.4));
         pos_y = (\<lambda>i. if num_mountains = 1 then height div 2
                      else py_int (real_of_int (height * (int i + 1)) / real_of_int (num_mountains + 1)));
         mountain_map = tabulate2 (nat height) (nat width)
           (\<lambda>y x. sum_list (map (\<lambda>i. ridge_profile mountain_width (pos_y i) (int y)
                                        * longitudinal_var width i x)
                               [0..<nat num_mountains]))
     in ebind (perlin_noise_2d L shape 0.3 3 0.5 st) (\<lambda>(large_noise, st1).
        ebind (perlin_noise_2d L shape 0.1 4 0.5 st1) (\<lambda>(medium_noise, st2).
        ebind (perlin_noise_2d L shape 0.03 2 0.5 st2) (\<lambda>(small_noise, st3).
          (let combined =
                 amap2 (+) (amap2 (+) (amap2 (+) (amap (\<lambda>v. v * 0.7) mountain_map)
                                                 (amap (\<lambda>v. v * 0.15) large_noise))
                                      (amap (\<lambda>v. v * 0.1) medium_noise))
                           (amap (\<lambda>v. v * 0.05) small_noise);
               contrasted = amap (\<lambda>v. v powr 1.8) combined
           in ebind (rescale_eps contrasted) (\<lambda>r. Inr (r, st3)))))))"

text \<open>
  In the rift generator the distances and the rift width are Python integers, so a
  rift width of 0 (a map narrower than 10) makes the first column divide by zero.
\<close>

definition rift_val :: "int \<Rightarrow> int \<Rightarrow> int \<Rightarrow> real" where
  "rift_val rift_center rift_width x =
    (let distance_to_center = \<bar>x - rift_center\<bar>
     in if distance_to_center < rift_width
        then - exp (- real_of_int (distance_to_center ^ 2) / real_of_int (rift_width ^ 2))
        else exp (- real_of_int ((distance_to_center - rift_width) ^ 2)
                    / real_of_int ((rift_width * 2) ^ 2)) * 0.5)"

definition generate_rift_valley ::
  "('g, 's) numlib \<Rightarrow> int \<times> int \<Rightarrow> TerrainParams \<Rightarrow> ('g, 's) gen_state
    \<Rightarrow> py_error + (array2 \<times> ('g, 's) gen_state)" where
  "generate_rift_valley L shape params st =
    (let height = fst shape; width = snd shape;
         rift_center = width div 2;
         rift_width = py_int (real_of_int width * 0.1)
     in if height < 0 \<or> width < 0 then Inl ValueError
        else if 0 < width \<and> rift_width = 0 then Inl ZeroDivisionError
        else
          (let rift_map = tabulate2 (nat height) (nat width)
                            (\<lambda>y x. rift_val rift_center rift_width (int x))
           in ebind (if tectonic_uplift params > 0.6
                     then ebind (perlin_noise_2d L shape 0.05 2 0.5 st) (\<lambda>(volcanic_noise, st1).
                            Inr (amap2 (\<lambda>a b. a + b * 0.3) rift_map volcanic_noise, st1))
                     else Inr (rift_map, st))
                (\<lambda>(m, st1). ebind (rescale_eps m) (\<lambda>r. Inr (r, st1)))))"

definition zone_val :: "int \<Rightarrow> int \<Rightarrow> int \<Rightarrow> nat \<Rightarrow> nat \<Rightarrow> nat \<Rightarrow> real" where
  "zone_val height width num_zones zone y x =
    (let zone_center = py_int (real_of_int (height * (int zone + 1)) / real_of_int (num_zones + 1));
         zone_width = py_int (real_of_int height * 0.05);
         distance = \<bar>int y - zone_center\<bar>
     in if distance < zone_width * 3
        then exp (- real_of_int (distance ^ 2) / real_of_int (2 * zone_width ^ 2))
             * (if zone mod 2 = 0
                then sin (real x / real_of_int width * pi * 8) * 0.5 + 0.5
                else cos (real x / real_of_int width * pi * 8) * 0.5 + 0.5)
        else 0)"

definition generate_transform_boundary ::
  "('g, 's) numlib \<Rightarrow> int \<times> int \<Rightarrow> TerrainParams \<Rightarrow> ('g, 's) gen_state
    \<Rightarrow> py_error + (array2 \<times> ('g, 's) gen_state)" where
  "generate_transform_boundary L shape params st =
    (let height = fst shape; width = snd shape;
         num_zones = 2 + py_int (tectonic_uplift params * 3);
         transform_map = tabulate2 (nat height) (nat width)
           (\<lambda>y x. sum_list (map (\<lambda>zone. zone_val height width num_zones zone y x)
                               [0..<nat num_zones]))
     in ebind (perlin_noise_2d L shape 0.08 4 0.5 st) (\<lambda>(detail_noise, st1).
          ebind (rescale_eps (amap2 (\<lambda>a b. a * 0.6 + b * 0.4) transform_map detail_noise))
            (\<lambda>r. Inr (r, st1))))"

definition generate_stable_craton ::
  "('g, 's) numlib \<Rightarrow> int \<times> int \<Rightarrow> TerrainParams \<Rightarrow> ('g, 's) gen_state
    \<Rightarrow> py_error + (array2 \<times> ('g, 's) gen_state)" where
  "generate_stable_craton L shape params st =
    ebind (perlin_noise_2d L shape 0.3 1 0.5 st) (\<lambda>(base_noise, st1).
    ebind (perlin_noise_2d L shape 0.05 3 0.5 st1) (\<lambda>(detail_noise, st2).
      (let craton_map = amap2 (\<lambda>a b. a * 0.8 + b * 0.2) base_noise detail_noise
       in Inr (if terrain_age params < 0.5
               then gaussian_filter L craton_map (2 + (1 - terrain_age params) * 5)
               else craton_map, st2))))"

definition generate_hardness_map ::
  "('g, 's) numlib \<Rightarrow> int \<times> int \<Rightarrow> real \<Rightarrow> ('g, 's) gen_state
    \<Rightarrow> py_error + (array2 \<times> ('g, 's) gen_state)" where
  "generate_hardness_map L shape overall_hardness st =
    ebind (perlin_noise_2d L shape 0.2 2 0.5 st) (\<lambda>(hardness_noise, st1).
      Inr (amap (\<lambda>v. v * 0.5 + overall_hardness * 0.5) hardness_noise, st1))"

text \<open>
  \<open>generate_tectonic_base\<close> seeds the generator with \<open>params.seed\<close> first, whatever
  \<open>self.rng\<close> held. The base is the pattern, times the hardness modulation, times
  \<open>tectonic_uplift ** 0.8\<close>; nothing rescales it afterwards.
\<close>

definition generate_tectonic_base ::
  "('g, 's) numlib \<Rightarrow> TerrainParams \<Rightarrow> ('g, 's) gen_state
    \<Rightarrow> py_error + (array2 \<times> ('g, 's) gen_state)" where
  "generate_tectonic_base L params st =
    ebind (init_random L (seed params) st) (\<lambda>(actual_seed, st0).
      (let height = snd (size_p params); width = fst (size_p params)
       in ebind (if tectonic_pattern params = ''convergent''
                 then generate_mountain_belt L (height, width) params st0
                 else if tectonic_pattern params = ''divergent''
                 then generate_rift_valley L (height, width) params st0
                 else if tectonic_pattern params = ''transform''
                 then generate_transform_boundary L (height, width) params st0
                 else generate_stable_craton L (height, width) params st0)
            (\<lambda>(base, st1).
          ebind (generate_hardness_map L (height, width) (rock_hardness params) st1)
            (\<lambda>(hardness_map, st2).
              Inr (amap (\<lambda>v. v * (tectonic_uplift params powr 0.8))
                     (amap2 (\<lambda>b hd. b * (0.7 + hd * 0.3)) base hardness_map), st2)))))"

subsection \<open>Stage 2: regions\<close>

definition too_close :: "int \<Rightarrow> int \<Rightarrow> int \<Rightarrow> int \<times> int \<Rightarrow> (int \<times> int) list \<Rightarrow> bool" where
  "too_close width height n c centers =
    list_ex (\<lambda>other. sqrt (real_of_int ((fst c - fst other) ^ 2 + (snd c - snd other) ^ 2))
                     < real_of_int (min width height) / real_of_int (n * 2)) centers"

text \<open>
  The \<open>while attempts < 100\<close> loop for one centre, with the attempts that are left as
  fuel: \<open>Some\<close> the accepted candidate, or \<open>None\<close> when all attempts were too close.
\<close>

fun try_place ::
  "nat \<Rightarrow> ('g, 's) numlib \<Rightarrow> int \<Rightarrow> int \<Rightarrow> int \<Rightarrow> (int \<times> int) list \<Rightarrow> 'g
    \<Rightarrow> py_error + ((int \<times> int) option \<times> 'g)" where
  "try_place 0 L width height n centers g = Inr (None, g)"
| "try_place (Suc k) L width height n centers g =
    (case rs_randint L g (width div 4) ((3 * width) div 4) of
       Inl e \<Rightarrow> Inl e
     | Inr (cx, g1) \<Rightarrow>
         (case rs_randint L g1 (height div 4) ((3 * height) div 4) of
            Inl e \<Rightarrow> Inl e
          | Inr (cy, g2) \<Rightarrow>
              if too_close width height n (cx, cy) centers
              then try_place k L width height n centers g2
              else Inr (Some (cx, cy), g2)))"

fun place_centers ::
  "nat list \<Rightarrow> ('g, 's) numlib \<Rightarrow> int \<Rightarrow> int \<Rightarrow> int \<Rightarrow> (int \<times> int) list \<Rightarrow> 'g
    \<Rightarrow> py_error + ((int \<times> int) list \<times> 'g)" where
  "place_centers [] L width height n centers g = Inr (centers, g)"
| "place_centers (i # rest) L width height n centers g =
    (case try_place 100 L width height n centers g of
       Inl e \<Rightarrow> Inl e
     | Inr (Some c, g1) \<Rightarrow> place_centers rest L width height n (centers @ [c]) g1
     | Inr (None, g1) \<Rightarrow>
         (let row = int i div 2; col = int i mod 2;
              cx = py_int (real_of_int (width * (col + 1)) / 3);
              cy = py_int (real_of_int (height * (row + 1)) / 3)
          in place_centers rest L width height n (centers @ [(cx, cy)]) g1))"

text \<open>
  The Voronoi loop. \<open>region_map\<close> and \<open>region_distance\<close> are updated under one
  mask, so a cell is the pair of its region and its distance, \<open>None\<close> for the initial
  \<open>inf\<close>. A region takes a cell only where its distance is strictly smaller.
\<close>

definition claim_cell :: "int \<Rightarrow> real \<Rightarrow> int \<times> real option \<Rightarrow> int \<times> real option" where
  "claim_cell region_id d cell =
    (if (case snd cell of None \<Rightarrow> True | Some old \<Rightarrow> d < old) then (region_id, Some d) else cell)"

definition center_distance :: "int \<times> int \<Rightarrow> array2 option \<Rightarrow> nat \<Rightarrow> nat \<Rightarrow> real" where
  "center_distance c perturbation y x =
    (let d = sqrt (real_of_int ((int x - fst c) ^ 2 + (int y - snd c) ^ 2))
     in case perturbation of None \<Rightarrow> d | Some a \<Rightarrow> d + a ! y ! x)"

definition voronoi_step ::
  "('g, 's) numlib \<Rightarrow> TerrainParams \<Rightarrow> int \<Rightarrow> int \<Rightarrow> nat \<times> (int \<times> int)
    \<Rightarrow> (int \<times> real option) list list \<times> ('g, 's) gen_state
    \<Rightarrow> py_error + ((int \<times> real option) list list \<times> ('g, 's) gen_state)" where
  "voronoi_step L params height width rc acc =
    ebind (if region_contrast params > 0.3
           then ebind (perlin_noise_2d L (height, width) 0.1 1 0.5 (snd acc)) (\<lambda>(noise, st1).
                  Inr (Some (amap (\<lambda>v. v * region_contrast params * 50) noise), st1))
           else Inr (None, snd acc))
      (\<lambda>(perturbation, st1).
         Inr (tabulate2 (nat height) (nat width)
                (\<lambda>y x. claim_cell (int (fst rc)) (center_distance (snd rc) perturbation y x)
                          (fst acc ! y ! x)), st1))"

definition generate_regions ::
  "('g, 's) numlib \<Rightarrow> TerrainParams \<Rightarrow> ('g, 's) gen_state
    \<Rightarrow> py_error + (int list list \<times> ('g, 's) gen_state)" where
  "generate_regions L params st =
    (let height = snd (size_p params); width = fst (size_p params); n = num_regions params
     in if n = 1
        then (if height < 0 \<or> width < 0 then Inl ValueError
              else Inr (tabulate2 (nat height) (nat width) (\<lambda>y x. 0), st))
        else
          ebind (if n \<le> 0 then Inr ([], st)
                 else with_rng st (place_centers [0..<nat n] L width height n []))
            (\<lambda>(centers, st1).
               if height < 0 \<or> width < 0 then Inl ValueError
               else ebind (fold_err (voronoi_step L params height width) (enumerate 0 centers)
                             (tabulate2 (nat height) (nat width) (\<lambda>y x. (0, None)), st1))
                      (\<lambda>(cells, st2). Inr (amap fst cells, st2))))"

subsection \<open>Stage 3: climate\<close>

definition clip01 :: "real \<Rightarrow> real" where
  "clip01 v = min 1 (max 0 v)"

definition climate_step ::
  "('g, 's) numlib \<Rightarrow> TerrainParams \<Rightarrow> int \<Rightarrow> int \<Rightarrow> int list list \<Rightarrow> nat
    \<Rightarrow> array2 \<times> ('g, 's) gen_state \<Rightarrow> py_error + (array2 \<times> ('g, 's) gen_state)" where
  "climate_step L params height width regions region_id acc =
    ebind (with_rng (snd acc) (\<lambda>g. Inr (np_uniform L g 0.7 1.3))) (\<lambda>(u, st1).
      if \<not> has_shape regions (nat height) (nat width) then Inl IndexError
      else
        (let mask = (\<lambda>y x. regions ! y ! x = int region_id);
             region_precip = clip01 (precipitation params * u);
             climate_map1 = tabulate2 (nat height) (nat width)
               (\<lambda>y x. if mask y x then region_precip else fst acc ! y ! x)
         in if list_ex (list_ex (\<lambda>r. r = int region_id)) regions
            then ebind (perlin_noise_2d L (height, width) 0.2 1 0.5 st1) (\<lambda>(noise, st2).
                   Inr (tabulate2 (nat height) (nat width)
                          (\<lambda>y x. clip01 (if mask y x
                                          then climate_map1 ! y ! x + noise ! y ! x * 0.2
                                          else climate_map1 ! y ! x)), st2))
            else Inr (climate_map1, st1)))"

definition generate_climate ::
  "('g, 's) numlib \<Rightarrow> TerrainParams \<Rightarrow> int list list \<Rightarrow> ('g, 's) gen_state
    \<Rightarrow> py_error + (array2 \<times> ('g, 's) gen_state)" where
  "generate_climate L params regions st =
    (let height = snd (size_p params); width = fst (size_p params)
     in if height < 0 \<or> width < 0 then Inl ValueError
        else if concat regions = [] then Inl ValueError
        else fold_err (climate_step L params height width regions)
               [0..<nat (Max (set (concat regions)) + 1)]
               (tabulate2 (nat height) (nat width) (\<lambda>y x. precipitation params), st))"

subsection \<open>Stage 4: erosion\<close>

text \<open>
  \<open>np.gradient\<close>: central differences inside, one-sided differences at the two
  ends; an axis shorter than 2 raises \<open>ValueError\<close>. It returns the gradient along
  the rows' axis first.
\<close>

definition gradient1 :: "real list \<Rightarrow> real list" where
  "gradient1 a =
    (let n = length a
     in map (\<lambda>i. if i = 0 then a ! 1 - a ! 0
                  else if i = n - 1 then a ! (n - 1) - a ! (n - 2)
                  else (a ! (i + 1) - a ! (i - 1)) / 2) [0..<n])"

definition np_gradient :: "array2 \<Rightarrow> py_error + (array2 \<times> array2)" where
  "np_gradient a =
    (let height = fst (shape_of a); width = snd (shape_of a)
     in if height < 2 \<or> width < 2 then Inl ValueError
        else Inr (tabulate2 height width (\<lambda>y x. gradient1 (map (\<lambda>row. row ! x) a) ! y),
                  map gradient1 a))"

definition slope_of :: "array2 \<times> array2 \<Rightarrow> array2" where
  "slope_of g = amap2 (\<lambda>gy gx. sqrt (gx ^ 2 + gy ^ 2)) (fst g) (snd g)"

definition argmin_list :: "real list \<Rightarrow> nat" where
  "argmin_list xs = length (takeWhile (\<lambda>v. v \<noteq> Min (set xs)) xs)"

text \<open>
  One cell of the hydraulic pass. It reads the unchanged \<open>heightmap\<close> and adds to
  \<open>eroded\<close>; \<open>climate_map[y, x]\<close> raises \<open>IndexError\<close> outside the climate map.
\<close>

definition hydraulic_cell ::
  "array2 \<Rightarrow> array2 \<Rightarrow> array2 \<Rightarrow> real \<Rightarrow> nat \<times> nat \<Rightarrow> array2 \<Rightarrow> py_error + array2" where
  "hydraulic_cell heightmap slope climate_map intensity idx eroded =
    (let height = fst (shape_of heightmap); width = snd (shape_of heightmap);
         y = fst idx; x = snd idx
     in if y = 0 \<or> y = height - 1 \<or> x = 0 \<or> x = width - 1 then Inr eroded
        else
          (let local_heights = concat (map (\<lambda>dy. map (\<lambda>dx. heightmap ! (y + dy - 1) ! (x + dx - 1))
                                                  [0..<3]) [0..<3]);
               min_height = Min (set local_heights)
           in if min_height < heightmap ! y ! x
              then (if y < length climate_map \<and> x < length (climate_map ! y)
                    then
                      (let erosion_amount = slope ! y ! x * climate_map ! y ! x * intensity * 0.01;
                           eroded1 = aset eroded y x (eroded ! y ! x - erosion_amount);
                           min_pos = argmin_list local_heights;
                           target_y = y + min_pos div 3 - 1;
                           target_x = x + min_pos mod 3 - 1
                       in Inr (aset eroded1 target_y target_x
                                 (eroded1 ! target_y ! target_x + erosion_amount * 0.5)))
                    else Inl IndexError)
              else Inr eroded))"

text \<open>
  The cells are visited from the highest to the lowest. (Equal heights are visited
  in an order \<open>argsort\<close> does not fix; every update adds to \<open>eroded\<close>, so over the
  reals the order does not matter.)
\<close>

definition simulate_hydraulic_erosion :: "array2 \<Rightarrow> array2 \<Rightarrow> real \<Rightarrow> py_error + array2" where
  "simulate_hydraulic_erosion heightmap climate_map intensity =
    ebind (np_gradient heightmap) (\<lambda>g.
      (let slope = slope_of g;
           sorted_indices =
             rev (sort_key (\<lambda>idx. heightmap ! fst idx ! snd idx)
                    (List.product [0..<fst (shape_of heightmap)] [0..<snd (shape_of heightmap)]))
       in fold_err (hydraulic_cell heightmap slope climate_map intensity) sorted_indices heightmap))"

definition simulate_thermal_weathering :: "array2 \<Rightarrow> real \<Rightarrow> py_error + array2" where
  "simulate_thermal_weathering heightmap temp =
    (let weathering_rate = (if temp < 0.3 \<or> temp > 0.7 then 0.005 else 0.001)
     in ebind (np_gradient heightmap) (\<lambda>g.
          Inr (amap2 (\<lambda>h s. h - s * weathering_rate) heightmap (slope_of g))))"

definition simulate_wind_erosion :: "array2 \<Rightarrow> real \<Rightarrow> array2" where
  "simulate_wind_erosion heightmap wind =
    map (\<lambda>row. map (\<lambda>x. row ! x
                         + (if 1 \<le> x \<and> row ! x > row ! (x - 1)
                            then - min ((row ! x - row ! (x - 1)) * 0.1 * wind) (row ! x * 0.05)
                            else 0))
                  [0..<length row]) heightmap"

text \<open>The three guarded steps of one pass of the erosion loop, in the loop's order.\<close>

definition hydraulic_step :: "TerrainParams \<Rightarrow> array2 \<Rightarrow> array2 \<Rightarrow> py_error + array2" where
  "hydraulic_step params climate_map eroded =
    (if precipitation params > 0.1 \<and> river_intensity params > 0.1
     then simulate_hydraulic_erosion eroded climate_map (river_intensity params)
     else Inr eroded)"

definition thermal_step :: "TerrainParams \<Rightarrow> array2 \<Rightarrow> py_error + array2" where
  "thermal_step params eroded =
    (if temperature params < 0.8 then simulate_thermal_weathering eroded (temperature params)
     else Inr eroded)"

definition wind_step :: "TerrainParams \<Rightarrow> array2 \<Rightarrow> py_error + array2" where
  "wind_step params eroded =
    (if wind_intensity params > 0.3 \<and> precipitation params < 0.4
     then Inr (simulate_wind_erosion eroded (wind_intensity params))
     else Inr eroded)"

definition erosion_pass :: "TerrainParams \<Rightarrow> array2 \<Rightarrow> array2 \<Rightarrow> py_error + array2" where
  "erosion_pass params climate_map eroded =
    ebind (hydraulic_step params climate_map eroded) (\<lambda>e1.
    ebind (thermal_step params e1) (\<lambda>e2. wind_step params e2))"

text \<open>
  \<open>simulate_erosion\<close> up to its last statement: the passes and the smoothing of old
  terrain. The last statement rescales this field.
\<close>

definition erosion_field ::
  "('g, 's) numlib \<Rightarrow> array2 \<Rightarrow> TerrainParams \<Rightarrow> array2 \<Rightarrow> py_error + array2" where
  "erosion_field L heightmap params climate_map =
    ebind (fold_err (\<lambda>iteration. erosion_pass params climate_map)
             [0..<nat (erosion_iterations params)] heightmap)
      (\<lambda>eroded. Inr (if terrain_age params < 0.5
                     then gaussian_filter L eroded (2 + (1 - terrain_age params) * 3)
                     else eroded))"

definition simulate_erosion ::
  "('g, 's) numlib \<Rightarrow> array2 \<Rightarrow> TerrainParams \<Rightarrow> array2 \<Rightarrow> int list list \<Rightarrow> py_error + array2" where
  "simulate_erosion L heightmap params climate_map regions =
    ebind (erosion_field L heightmap params climate_map) rescale_eps"

subsection \<open>Stage 5: post-processing\<close>

definition dist_to_edge :: "nat \<Rightarrow> nat \<Rightarrow> nat \<Rightarrow> nat \<Rightarrow> int" where
  "dist_to_edge height width y x =
    min (int x) (min (int width - 1 - int x) (min (int y) (int height - 1 - int y)))"

definition create_coastal_mask :: "nat \<times> nat \<Rightarrow> real \<Rightarrow> array2" where
  "create_coastal_mask shape d2c =
    (let height = fst shape; width = snd shape
     in tabulate2 height width
          (\<lambda>y x.
             (let norm_dist = real_of_int (dist_to_edge height width y x)
                                / real (min width height) * 2
              in if d2c < 0.3
                 then (if norm_dist < 0.1 then 0.1 else if norm_dist < 0.2 then 0.3 else 1.0)
                 else if d2c > 0.7 then 1.0
                 else 1.0)))"

text \<open>Step 2 of \<open>post_process\<close>: the coastal attenuation, applied only to coastal maps.\<close>

definition coastal_step :: "TerrainParams \<Rightarrow> array2 \<Rightarrow> array2" where
  "coastal_step params heightmap =
    (if distance_to_coast params < 0.3
     then amap2 (\<lambda>h m. h * (0.3 + m * 0.7)) heightmap
            (create_coastal_mask (shape_of heightmap) (distance_to_coast params))
     else heightmap)"

text \<open>
  \<open>post_process\<close> up to its last statement (clamp below at 0, coast, detail noise);
  the last statement rescales this field.
\<close>

definition post_process_field ::
  "('g, 's) numlib \<Rightarrow> array2 \<Rightarrow> TerrainParams \<Rightarrow> ('g, 's) gen_state
    \<Rightarrow> py_error + (array2 \<times> ('g, 's) gen_state)" where
  "post_process_field L heightmap params st =
    (let heightmap1 = amap (max 0) heightmap;
         heightmap2 = coastal_step params heightmap1
     in ebind (perlin_noise_2d L (int (fst (shape_of heightmap)), int (snd (shape_of heightmap)))
                 0.02 2 0.5 st)
          (\<lambda>(detail_noise, st1).
             Inr (amap2 (\<lambda>h n. h * 0.95 + n * 0.05) heightmap2 detail_noise, st1)))"

definition post_process ::
  "('g, 's) numlib \<Rightarrow> array2 \<Rightarrow> TerrainParams \<Rightarrow> ('g, 's) gen_state
    \<Rightarrow> py_error + (array2 \<times> ('g, 's) gen_state)" where
  "post_process L heightmap params st =
    ebind (post_process_field L heightmap params st) (\<lambda>(field, st1).
      ebind (rescale_eps field) (\<lambda>r. Inr (r, st1)))"

subsection \<open>ui/main\_window.py: one generation run\<close>

text \<open>
  \<open>GenerationThread.run\<close>: a fresh generator (\<open>self.rng\<close> is \<open>None\<close>) runs the five
  stages in order; an exception anywhere ends the run with that error.
\<close>

definition run_stages ::
  "('g, 's) numlib \<Rightarrow> TerrainParams \<Rightarrow> ('g, 's) gen_state \<Rightarrow> py_error + array2" where
  "run_stages L params st =
    ebind (generate_tectonic_base L params st) (\<lambda>(tectonic_layer, st1).
    ebind (generate_regions L params st1) (\<lambda>(regions, st2).
    ebind (generate_climate L params regions st2) (\<lambda>(climate, st3).
    ebind (simulate_erosion L tectonic_layer params climate regions) (\<lambda>heightmap.
    ebind (post_process L heightmap params st3) (\<lambda>(heightmap1, st4). Inr heightmap1)))))"

definition run_generation :: "('g, 's) numlib \<Rightarrow> TerrainParams \<Rightarrow> 's \<Rightarrow> py_error + array2" where
  "run_generation L params sys = run_stages L params \<lparr> rng = None, sysrand = sys \<rparr>"

subsection \<open>A library to instantiate the theorems with\<close>

text \<open>
  Closed instances of the theorems need some library. \<open>toy_lib\<close> is one: its states
  are counters, \<open>zoom\<close> resamples to the nearest cell and the filter is the identity.
  Nothing proved below depends on what it computes.
\<close>

definition toy_lib :: "(nat, nat) numlib" where
  "toy_lib = \<lparr>
     np_RandomState = (\<lambda>s. nat s),
     np_randn = (\<lambda>g h w. (\<lambda>y x. real ((g + y * w + x) mod 7) - 3, g + h * w)),
     np_randint = (\<lambda>g low high. (low + int g, Suc g)),
     np_uniform = (\<lambda>g low high. (low, Suc g)),
     py_random_randint = (\<lambda>s low high. (low + int s, Suc s)),
     ndimage_zoom = (\<lambda>a zf y x. a ! nat \<lfloor>real y / fst zf\<rfloor> ! nat \<lfloor>real x / snd zf\<rfloor>),
     ndimage_gaussian_filter = (\<lambda>a sigma y x. a ! y ! x) \<rparr>"


text \<open>Two records for a 2 x 2 map without perturbation: five regions, and two.\<close>

definition crowded_params :: TerrainParams where
  "crowded_params = default_record\<lparr>size_p := (2, 2), num_regions := 5, region_contrast := 0\<rparr>"

definition pair_params :: TerrainParams where
  "pair_params = default_record\<lparr>size_p := (2, 2), num_regions := 2, region_contrast := 0\<rparr>"

section \<open>Runs that agree on the seeded generator\<close>

text \<open>
  Two states agree when \<open>self.rng\<close> is set and is the same in both (the state of
  Python's process-wide generator may differ); two outcomes agree when they are the
  same exception, or the same value with states that agree.
\<close>

definition same_rng :: "('g, 's) gen_state \<Rightarrow> ('g, 's) gen_state \<Rightarrow> bool" where
  "same_rng s t \<longleftrightarrow> rng s = rng t \<and> rng s \<noteq> None"

definition same_out ::
  "py_error + ('a \<times> ('g, 's) gen_state) \<Rightarrow> py_error + ('a \<times> ('g, 's) gen_state) \<Rightarrow> bool" where
  "same_out r1 r2 =
    (case r1 of
       Inl e \<Rightarrow> r2 = Inl e
     | Inr x \<Rightarrow> (case r2 of Inl e \<Rightarrow> False | Inr y \<Rightarrow> fst x = fst y \<and> same_rng (snd x) (snd y)))"

chapter \<open>Properties\<close>

section \<open>Sequencing and arrays\<close>

lemma ebind_Inr [simp]: "ebind (Inr a) f = f a"
  by (simp add: ebind_def)

lemma ebind_Inl [simp]: "ebind (Inl e) f = Inl e"
  by (simp add: ebind_def)

lemma ebind_return: "ebind m Inr = m"
  by (cases m) simp_all

lemma nth_tabulate2: "y < h \<Longrightarrow> x < w \<Longrightarrow> tabulate2 h w f ! y ! x = f y x"
  by (simp add: tabulate2_def)

lemma has_shape_tabulate2: "has_shape (tabulate2 h w f) h w"
  by (simp add: has_shape_def tabulate2_def list_all_iff)

lemma has_shape_row: "has_shape a h w \<Longrightarrow> y < h \<Longrightarrow> length (a ! y) = w"
  by (auto simp: has_shape_def list_all_length)

lemma has_shape_length: "has_shape a h w \<Longrightarrow> length a = h"
  by (simp add: has_shape_def)

lemma shape_of_has_shape: "has_shape a h w \<Longrightarrow> 0 < h \<Longrightarrow> shape_of a = (h, w)"
  by (cases a) (auto simp: has_shape_def shape_of_def)

lemma nth_amap2:
  "y < length a \<Longrightarrow> y < length b \<Longrightarrow> x < length (a ! y) \<Longrightarrow> x < length (b ! y)
    \<Longrightarrow> amap2 f a b ! y ! x = f (a ! y ! x) (b ! y ! x)"
  by (simp add: amap2_def)

section \<open>The parameter record and the preset manager\<close>

lemma field_names_eq:
  "field_names = [''size'', ''seed'', ''tectonic_uplift'', ''tectonic_pattern'', ''rock_hardness'',
     ''terrain_age'', ''precipitation'', ''temperature'', ''wind_intensity'', ''distance_to_coast'',
     ''num_regions'', ''region_contrast'', ''erosion_iterations'', ''river_intensity'',
     ''glacial_intensity'']"
  by (simp add: field_names_def field_defaults_def)

lemma map_of_dict_set: "map_of (dict_set d k v) = (map_of d)(k \<mapsto> v)"
  by (induction d) (auto simp: fun_eq_iff)

lemma keys_dict_set: "k \<in> fst ` set d \<Longrightarrow> map fst (dict_set d k v) = map fst d"
  by (induction d) auto

lemma keys_dict_set_subset: "fst ` set (dict_set d k v) = insert k (fst ` set d)"
  by (induction d) auto

lemma keys_init_fields: "map fst (init_fields kw) = field_names"
  by (simp add: init_fields_def field_names_def comp_def)

lemma keys_init_fields_set: "fst ` set (init_fields kw) = set field_names"
  by (metis keys_init_fields list.set_map)

lemma map_of_base_aux:
  "map_of (map (\<lambda>fd. (fst fd, (case m (fst fd) of Some v \<Rightarrow> v | None \<Rightarrow> snd fd))) xs) f
     = (case map_of xs f of None \<Rightarrow> None | Some dv \<Rightarrow> Some (case m f of Some v \<Rightarrow> v | None \<Rightarrow> dv))"
  by (induction xs) auto

lemma map_of_init_fields:
  "map_of (init_fields kw) f = (case map_of field_defaults f of None \<Rightarrow> None
      | Some dv \<Rightarrow> Some (case map_of kw f of Some v \<Rightarrow> v | None \<Rightarrow> dv))"
  unfolding init_fields_def by (rule map_of_base_aux)

lemma keys_post_init:
  assumes "''size'' \<in> fst ` set obj" "''seed'' \<in> fst ` set obj"
  shows "map fst (post_init obj) = map fst obj"
proof -
  have 1: "''seed'' \<in> fst ` set (dict_set obj ''size'' v)" for v
    using assms(2) by (simp add: keys_dict_set_subset)
  show ?thesis
    using assms 1 by (auto simp: post_init_def Let_def keys_dict_set split: option.splits pyval.splits)
qed

lemma map_of_post_init_other:
  "f \<noteq> ''size'' \<Longrightarrow> f \<noteq> ''seed'' \<Longrightarrow> map_of (post_init obj) f = map_of obj f"
  by (auto simp: post_init_def Let_def map_of_dict_set split: option.splits pyval.splits)

lemma map_of_post_init_size:
  "map_of (post_init obj) ''size'' =
     (case map_of obj ''size'' of Some (PList xs) \<Rightarrow> Some (PTuple xs) | r \<Rightarrow> r)"
  by (auto simp: post_init_def Let_def map_of_dict_set split: option.splits pyval.splits)

lemma init_ok:
  "set (map fst kw) \<subseteq> set field_names \<Longrightarrow> TerrainParams_init kw = Inr (post_init (init_fields kw))"
  by (auto simp: TerrainParams_init_def)

lemma init_bad:
  "\<not> set (map fst kw) \<subseteq> set field_names \<Longrightarrow> TerrainParams_init kw = Inl TypeError"
  by (auto simp: TerrainParams_init_def init_fields_def)

lemma init_Inr: "TerrainParams_init kw = Inr obj \<Longrightarrow> obj = post_init (init_fields kw)"
  by (auto simp: TerrainParams_init_def split: if_splits)

lemma size_seed_fields: "''size'' \<in> set field_names" "''seed'' \<in> set field_names"
  by (simp_all add: field_names_eq)

lemma dflt_size: "map_of field_defaults ''size'' = Some (PTuple [PInt 1024, PInt 1024])"
  by (simp add: field_defaults_def)

lemma keys_size_as_tuple: "fst ` set (size_as_tuple d) = fst ` set d"
proof (cases "\<exists>xs. map_of d ''size'' = Some (PList xs)")
  case True
  then obtain xs where xs: "map_of d ''size'' = Some (PList xs)" by blast
  then have "''size'' \<in> fst ` set d" by (metis map_of_eq_None_iff option.distinct(1))
  then show ?thesis using xs by (auto simp: size_as_tuple_def keys_dict_set_subset)
next
  case False
  then show ?thesis by (auto simp: size_as_tuple_def split: option.splits pyval.splits)
qed

lemma map_of_size_as_tuple_other: "f \<noteq> ''size'' \<Longrightarrow> map_of (size_as_tuple d) f = map_of d f"
  by (auto simp: size_as_tuple_def map_of_dict_set split: option.splits pyval.splits)

lemma map_of_size_as_tuple: "map_of (size_as_tuple d) ''size'' =
     (case map_of d ''size'' of Some (PList xs) \<Rightarrow> Some (PTuple xs) | r \<Rightarrow> r)"
  by (auto simp: size_as_tuple_def map_of_dict_set split: option.splits pyval.splits)

lemma from_dict_PDict: "from_dict (PDict d) = TerrainParams_init (size_as_tuple d)"
  by (simp add: from_dict_def)

text \<open>
  Claim C5, as amended. \<open>from_dict\<close> succeeds on every dictionary all of whose keys
  are field names: the record has exactly the fields, a missing key takes the field's
  default, a given value is stored as it is (but a \<open>seed\<close> equal to 0 becomes absent),
  and a list-typed \<open>size\<close> is stored as the tuple of its elements. A dictionary with
  any other key is not accepted: the keyword call of the constructor raises
  \<open>TypeError\<close>.
\<close>

theorem from_dict_field_keys:
  "(set (map fst d) \<subseteq> set field_names \<longrightarrow>
      (\<exists>obj. from_dict (PDict d) = Inr obj \<and> map fst obj = field_names
        \<and> (\<forall>f \<in> set field_names. map_of d f = None \<longrightarrow> map_of obj f = map_of field_defaults f)
        \<and> (\<forall>f v. map_of d f = Some v \<longrightarrow> f \<noteq> ''size'' \<longrightarrow> f \<noteq> ''seed'' \<longrightarrow> map_of obj f = Some v)
        \<and> (\<forall>xs. map_of d ''size'' = Some (PList xs) \<longrightarrow> map_of obj ''size'' = Some (PTuple xs))))
   \<and> (\<not> set (map fst d) \<subseteq> set field_names \<longrightarrow> from_dict (PDict d) = Inl TypeError)"
proof (intro conjI impI)
  assume sub: "set (map fst d) \<subseteq> set field_names"
  let ?obj = "post_init (init_fields (size_as_tuple d))"
  have eq: "from_dict (PDict d) = Inr ?obj"
    using sub by (simp add: from_dict_PDict init_ok keys_size_as_tuple)
  have keys: "map fst ?obj = field_names"
    by (simp add: keys_post_init keys_init_fields keys_init_fields_set size_seed_fields)
  have dfl: "map_of ?obj f = map_of field_defaults f" if "f \<in> set field_names" "map_of d f = None" for f
  proof (cases "f = ''size'' \<or> f = ''seed''")
    case False
    then show ?thesis using that
      by (auto simp: map_of_post_init_other map_of_init_fields map_of_size_as_tuple_other split: option.splits)
  next
    case True
    then show ?thesis
    proof
      assume "f = ''size''"
      then show ?thesis using that
        by (simp add: map_of_post_init_size map_of_init_fields map_of_size_as_tuple dflt_size)
    next
      assume "f = ''seed''"
      then show ?thesis using that
        by (simp add: post_init_def Let_def map_of_dict_set map_of_init_fields map_of_size_as_tuple_other
            field_defaults_def py_eq_zero_def split: option.splits pyval.splits)
    qed
  qed
  have oth: "map_of ?obj f = Some v" if "map_of d f = Some v" "f \<noteq> ''size''" "f \<noteq> ''seed''" for f v
  proof -
    have "f \<in> set field_names" using that(1) sub by (auto dest!: map_of_SomeD)
    then have "map_of field_defaults f \<noteq> None"
      by (simp add: map_of_eq_None_iff field_names_def)
    then obtain dv where "map_of field_defaults f = Some dv" by auto
    then show ?thesis using that
      by (simp add: map_of_post_init_other map_of_init_fields map_of_size_as_tuple_other)
  qed
  have sz: "map_of ?obj ''size'' = Some (PTuple xs)" if "map_of d ''size'' = Some (PList xs)" for xs
    using that by (simp add: map_of_post_init_size map_of_init_fields map_of_size_as_tuple dflt_size)
  show "\<exists>obj. from_dict (PDict d) = Inr obj \<and> map fst obj = field_names
        \<and> (\<forall>f \<in> set field_names. map_of d f = None \<longrightarrow> map_of obj f = map_of field_defaults f)
        \<and> (\<forall>f v. map_of d f = Some v \<longrightarrow> f \<noteq> ''size'' \<longrightarrow> f \<noteq> ''seed'' \<longrightarrow> map_of obj f = Some v)
        \<and> (\<forall>xs. map_of d ''size'' = Some (PList xs) \<longrightarrow> map_of obj ''size'' = Some (PTuple xs))"
    using eq keys dfl oth sz by blast
next
  assume "\<not> set (map fst d) \<subseteq> set field_names"
  then show "from_dict (PDict d) = Inl TypeError"
    by (simp add: from_dict_PDict init_bad keys_size_as_tuple)
qed

theorem from_dict_field_keys_witness:
  "set (map fst [(''size'', PList [PInt 512, PInt 256]), (''num_regions'', PInt 3)]) \<subseteq> set field_names
   \<and> (\<exists>obj. from_dict (PDict [(''size'', PList [PInt 512, PInt 256]), (''num_regions'', PInt 3)]) = Inr obj
        \<and> map_of obj ''size'' = Some (PTuple [PInt 512, PInt 256])
        \<and> map_of obj ''num_regions'' = Some (PInt 3)
        \<and> map_of obj ''seed'' = Some PNone)"
proof -
  let ?d = "[(''size'', PList [PInt 512, PInt 256]), (''num_regions'', PInt 3)]"
  have sub: "set (map fst ?d) \<subseteq> set field_names"
    by (simp add: field_names_eq)
  from from_dict_field_keys [of ?d] sub obtain obj where
    ok: "from_dict (PDict ?d) = Inr obj" and
    dfl: "\<forall>f \<in> set field_names. map_of ?d f = None \<longrightarrow> map_of obj f = map_of field_defaults f" and
    oth: "\<forall>f v. map_of ?d f = Some v \<longrightarrow> f \<noteq> ''size'' \<longrightarrow> f \<noteq> ''seed'' \<longrightarrow> map_of obj f = Some v" and
    sz: "\<forall>xs. map_of ?d ''size'' = Some (PList xs) \<longrightarrow> map_of obj ''size'' = Some (PTuple xs)"
    by blast
  have 1: "map_of obj ''size'' = Some (PTuple [PInt 512, PInt 256])"
    using sz by simp
  have 2: "map_of obj ''num_regions'' = Some (PInt 3)"
    using oth [rule_format, of "''num_regions''" "PInt 3"] by simp
  have 3: "map_of obj ''seed'' = Some PNone"
    using dfl [rule_format, of "''seed''"] by (simp add: size_seed_fields field_defaults_def)
  show ?thesis using sub ok 1 2 3 by blast
qed

text \<open>
  Claim C5 as stated fails: an unknown key is not ignored. A document whose recognised
  entry is a valid size and which carries one more key is rejected.
\<close>

theorem from_dict_unknown_key_rejected:
  "from_dict (PDict [(''size'', PList [PInt 512, PInt 256]), (''comment'', PStr ''hills'')]) = Inl TypeError"
  by (simp add: from_dict_def size_as_tuple_def TerrainParams_init_def init_fields_def field_names_eq)



lemma obj_of_default: "TerrainParams_init [] = Inr (obj_of default_record)"
  by (simp add: TerrainParams_init_def init_fields_def post_init_def field_defaults_def py_eq_zero_def Let_def
      obj_of_def default_record_def)

text \<open>
  Claim C8 as stated fails. \<open>from_dict\<close> stores the elements of the size as given,
  positive or not; and \<open>load_preset\<close> assigns the document's array to the attribute
  after construction, so the size of a loaded preset is a list.
\<close>

theorem size_not_always_positive_tuple:
  "from_dict (PDict [(''size'', PList [PInt 0, PInt (- 5)])])
     = Inr ((''size'', PTuple [PInt 0, PInt (- 5)]) # tl field_defaults)
   \<and> load_preset [''hills'' \<mapsto> Parsed (JObject [(''size'', JArray [JInt 512, JInt 512])])] ''hills''
     = Inr ((''size'', PList [PInt 512, PInt 512]) # tl field_defaults)"
  by (simp add: from_dict_def size_as_tuple_def load_preset_def TerrainParams_init_def init_fields_def field_names_eq post_init_def
      field_defaults_def py_eq_zero_def hasattr_def dict_of_items_def Let_def method_names_def)

text \<open>
  Claim C8, as amended. Construction with defaults gives the size \<open>(1024, 1024)\<close>.
  A record that \<open>from_dict\<close> returns holds the default size when the document has no
  size, the tuple of the elements when the document's size is a list, and the given
  value otherwise: so a list or tuple of two positive integers gives a 2-tuple of
  positive integers, and nothing checks the elements. \<open>from_json\<close> is \<open>from_dict\<close>
  on the parsed document. \<open>load_preset\<close> of a preset that has no file returns the
  record of the defaults.
\<close>

theorem size_of_constructed_params:
  "(\<exists>obj. TerrainParams_init [] = Inr obj \<and> map_of obj ''size'' = Some (PTuple [PInt 1024, PInt 1024]))
   \<and> (from_dict (PDict d) = Inr obj \<longrightarrow>
        map_of obj ''size'' =
          (case map_of d ''size'' of
             None \<Rightarrow> Some (PTuple [PInt 1024, PInt 1024])
           | Some (PList xs) \<Rightarrow> Some (PTuple xs)
           | Some v \<Rightarrow> Some v))
   \<and> (from_json doc = Inr obj' \<longrightarrow> (\<exists>d'. json_loads doc = PDict d' \<and> from_dict (PDict d') = Inr obj'))
   \<and> (presets_dir preset_name = None \<longrightarrow> load_preset presets_dir preset_name = TerrainParams_init [])"
proof (intro conjI impI)
  show "\<exists>obj. TerrainParams_init [] = Inr obj \<and> map_of obj ''size'' = Some (PTuple [PInt 1024, PInt 1024])"
    by (simp add: obj_of_default obj_of_def default_record_def)
next
  assume "from_dict (PDict d) = Inr obj"
  then have "obj = post_init (init_fields (size_as_tuple d))"
    by (simp add: from_dict_PDict init_Inr)
  then show "map_of obj ''size'' =
          (case map_of d ''size'' of
             None \<Rightarrow> Some (PTuple [PInt 1024, PInt 1024])
           | Some (PList xs) \<Rightarrow> Some (PTuple xs)
           | Some v \<Rightarrow> Some v)"
    by (simp add: map_of_post_init_size map_of_init_fields map_of_size_as_tuple dflt_size
        split: option.splits pyval.splits)
next
  assume "from_json doc = Inr obj'"
  then show "\<exists>d'. json_loads doc = PDict d' \<and> from_dict (PDict d') = Inr obj'"
    by (cases "json_loads doc") (simp_all add: from_json_def from_dict_def)
next
  assume "presets_dir preset_name = None"
  then show "load_preset presets_dir preset_name = TerrainParams_init []"
    by (simp add: load_preset_def)
qed

theorem size_of_constructed_params_witness:
  "from_dict (PDict [(''size'', PList [PInt 512, PInt 256])])
      = Inr ((''size'', PTuple [PInt 512, PInt 256]) # tl field_defaults)
   \<and> map_of ((''size'', PTuple [PInt 512, PInt 256]) # tl field_defaults) ''size''
      = Some (PTuple [PInt 512, PInt 256])
   \<and> from_json (JObject []) = Inr field_defaults
   \<and> (Map.empty :: string \<rightharpoonup> file_content) ''hills'' = None
   \<and> load_preset Map.empty ''hills'' = Inr field_defaults"
  using size_of_constructed_params [of "[(''size'', PList [PInt 512, PInt 256])]"
      "(''size'', PTuple [PInt 512, PInt 256]) # tl field_defaults" "JObject []" field_defaults
      Map.empty "''hills''"]
  by (simp add: from_dict_def size_as_tuple_def from_json_def TerrainParams_init_def init_fields_def field_names_eq post_init_def
      field_defaults_def py_eq_zero_def dict_of_items_def Let_def)

section \<open>The preview canvas\<close>

lemma wheel_zoom_bounds:
  "view_mode c = ''2D'' \<Longrightarrow> 0.1 \<le> zoom_level (wheelEvent delta c) \<and> zoom_level (wheelEvent delta c) \<le> 10"
  by (simp add: wheelEvent_def Let_def)

lemma plus_pow: "zoom_level ((keyPressEvent Key_Plus ^^ n) c) = zoom_level c * 1.1 ^ n"
  by (induction n) (simp_all add: keyPressEvent_def)

lemma minus_pow: "zoom_level ((keyPressEvent Key_Minus ^^ n) c) = zoom_level c * 0.9 ^ n"
  by (induction n) (simp_all add: keyPressEvent_def)

text \<open>
  Claim C9 fails on the keyboard path. The wheel handler clamps the zoom level to
  \<open>[0.1, 10]\<close> (\<open>wheel_zoom_bounds\<close>); the \<open>+\<close> and \<open>-\<close> handlers multiply it and
  do not clamp: one \<open>+\<close> at zoom 10 gives 11, twenty-five \<open>+\<close> from the initial
  zoom 1 exceed 10, and twenty-two \<open>-\<close> fall below 0.1.
\<close>

theorem keypress_zoom_unclamped:
  "zoom_level (keyPressEvent Key_Plus (PreviewCanvas_init\<lparr>zoom_level := 10\<rparr>)) = 11
   \<and> zoom_level ((keyPressEvent Key_Plus ^^ 25) PreviewCanvas_init) > 10
   \<and> zoom_level ((keyPressEvent Key_Minus ^^ 22) PreviewCanvas_init) < 0.1"
proof -
  have "zoom_level (keyPressEvent Key_Plus (PreviewCanvas_init\<lparr>zoom_level := 10\<rparr>)) = 11"
    by (simp add: keyPressEvent_def)
  moreover have "zoom_level ((keyPressEvent Key_Plus ^^ 25) PreviewCanvas_init) > 10"
    by (simp add: plus_pow PreviewCanvas_init_def power_divide)
  moreover have "zoom_level ((keyPressEvent Key_Minus ^^ 22) PreviewCanvas_init) < 0.1"
    by (simp add: minus_pow PreviewCanvas_init_def power_divide)
  ultimately show ?thesis by blast
qed

section \<open>The texture\<close>

lemma ramp_color_outside:
  "\<forall>s \<in> set cmap. 0 \<le> fst s \<and> fst s \<le> 1 \<Longrightarrow> h < 0 \<or> 1 < h \<Longrightarrow> ramp_color cmap h = None"
  by (induction cmap h rule: ramp_color.induct) auto

lemma selected_ramp_stops:
  "\<forall>s \<in> set (case map_of colormaps colormap of Some c \<Rightarrow> c | None \<Rightarrow> terrain_ramp). 0 \<le> fst s \<and> fst s \<le> 1"
  by (simp add: colormaps_def terrain_ramp_def desert_ramp_def grayscale_ramp_def)

text \<open>
  Claim C10. Whatever colour map is named, a cell of the heightmap whose elevation is
  below 0 or above 1 gets the pixel \<open>(0, 0, 0)\<close>: no pair of neighbouring stops
  brackets it, so the zero-initialised texture is left as it is.
\<close>

theorem texture_out_of_range_black:
  assumes "generate_texture (Some hm) colormap = Some tex"
    and "y < length hm" and "x < length (hm ! y)"
    and "hm ! y ! x < 0 \<or> 1 < hm ! y ! x"
  shows "tex ! y ! x = (0, 0, 0)"
proof -
  let ?cmap = "case map_of colormaps colormap of Some c \<Rightarrow> c | None \<Rightarrow> terrain_ramp"
  have "tex = map (map (texture_pixel ?cmap)) hm"
    using assms(1) by (simp add: generate_texture_def)
  then have "tex ! y ! x = texture_pixel ?cmap (hm ! y ! x)"
    using assms(2,3) by simp
  moreover have "ramp_color ?cmap (hm ! y ! x) = None"
    using selected_ramp_stops assms(4) by (rule ramp_color_outside)
  ultimately show ?thesis by (simp add: texture_pixel_def)
qed

theorem texture_out_of_range_black_witness:
  "generate_texture (Some [[0.5, 1.5], [- 0.25, 1]]) ''desert''
     = Some (map (map (texture_pixel desert_ramp)) [[0.5, 1.5], [- 0.25, 1]])
   \<and> map (map (texture_pixel desert_ramp)) [[0.5, 1.5], [- 0.25, 1]] ! 0 ! 1 = (0, 0, 0)
   \<and> map (map (texture_pixel desert_ramp)) [[0.5, 1.5], [- 0.25, 1]] ! 1 ! 0 = (0, 0, 0)"
proof -
  let ?hm = "[[0.5, 1.5], [- 0.25, 1::real]]"
  have g: "generate_texture (Some ?hm) ''desert'' = Some (map (map (texture_pixel desert_ramp)) ?hm)"
    by (simp add: generate_texture_def colormaps_def)
  have a: "map (map (texture_pixel desert_ramp)) ?hm ! 0 ! 1 = (0, 0, 0)"
    using texture_out_of_range_black [OF g, of 0 1] by simp
  have b: "map (map (texture_pixel desert_ramp)) ?hm ! 1 ! 0 = (0, 0, 0)"
    using texture_out_of_range_black [OF g, of 1 0] by simp
  show ?thesis using g a b by blast
qed

section \<open>The guards of the erosion pass\<close>

text \<open>
  Claim C6. In a pass of the erosion loop, when the precipitation or the river
  intensity is 0 the hydraulic step returns the heightmap it was given, and the pass
  is the thermal step followed by the wind step; when the wind intensity is 0 or the
  precipitation is at least 0.4 the wind step returns the heightmap it was given, and
  the pass is the hydraulic step followed by the thermal step.
\<close>

theorem erosion_guards:
  "(precipitation p = 0 \<or> river_intensity p = 0 \<longrightarrow>
      hydraulic_step p cm e = Inr e
      \<and> erosion_pass p cm e = ebind (thermal_step p e) (wind_step p))
   \<and> (wind_intensity p = 0 \<or> 0.4 \<le> precipitation p \<longrightarrow>
      wind_step p e = Inr e
      \<and> erosion_pass p cm e = ebind (hydraulic_step p cm e) (thermal_step p))"
proof (intro conjI impI)
  assume a: "precipitation p = 0 \<or> river_intensity p = 0"
  then show h: "hydraulic_step p cm e = Inr e"
    by (auto simp: hydraulic_step_def)
  show "erosion_pass p cm e = ebind (thermal_step p e) (wind_step p)"
    by (simp add: erosion_pass_def h)
next
  assume a: "wind_intensity p = 0 \<or> 0.4 \<le> precipitation p"
  then have w: "wind_step p = Inr"
    by (auto simp: wind_step_def fun_eq_iff)
  then show "wind_step p e = Inr e" by simp
  show "erosion_pass p cm e = ebind (hydraulic_step p cm e) (thermal_step p)"
    by (simp add: erosion_pass_def w ebind_return)
qed

theorem erosion_guards_witness:
  "precipitation (default_record\<lparr>precipitation := 0\<rparr>) = 0
   \<and> hydraulic_step (default_record\<lparr>precipitation := 0\<rparr>) [[1, 2], [3, 4]] [[5, 1], [2, 7]]
       = Inr [[5, 1], [2, 7]]
   \<and> wind_intensity (default_record\<lparr>wind_intensity := 0\<rparr>) = 0
   \<and> wind_step (default_record\<lparr>wind_intensity := 0\<rparr>) [[5, 1], [2, 7]] = Inr [[5, 1], [2, 7]]
   \<and> 0.4 \<le> precipitation (default_record\<lparr>wind_intensity := 0.9\<rparr>)
   \<and> wind_step (default_record\<lparr>wind_intensity := 0.9\<rparr>) [[5, 1], [2, 7]] = Inr [[5, 1], [2, 7]]"
  using erosion_guards [of "default_record\<lparr>precipitation := 0\<rparr>" "[[1, 2], [3, 4]]" "[[5, 1], [2, 7]]"]
    erosion_guards [of "default_record\<lparr>wind_intensity := 0\<rparr>" "[[1, 2], [3, 4]]" "[[5, 1], [2, 7]]"]
    erosion_guards [of "default_record\<lparr>wind_intensity := 0.9\<rparr>" "[[1, 2], [3, 4]]" "[[5, 1], [2, 7]]"]
  by (simp add: default_record_def)

section \<open>The coastal mask\<close>

lemma coastal_mask_cell:
  "y < h \<Longrightarrow> x < w \<Longrightarrow>
    create_coastal_mask (h, w) d ! y ! x =
      (if d < 0.3
       then (if real_of_int (dist_to_edge h w y x) / real (min w h) * 2 < 0.1 then 0.1
             else if real_of_int (dist_to_edge h w y x) / real (min w h) * 2 < 0.2 then 0.3
             else 1)
       else 1)"
  by (simp add: create_coastal_mask_def nth_tabulate2 Let_def)

lemma coastal_step_cell:
  assumes "has_shape hm h w" "y < h" "x < w" "distance_to_coast p < 0.3"
  shows "coastal_step p hm ! y ! x
     = hm ! y ! x * (0.3 + create_coastal_mask (h, w) (distance_to_coast p) ! y ! x * 0.7)"
proof -
  have sh: "shape_of hm = (h, w)" using assms(1,2) by (simp add: shape_of_has_shape)
  have m: "has_shape (create_coastal_mask (h, w) (distance_to_coast p)) h w"
    by (simp add: create_coastal_mask_def has_shape_tabulate2)
  show ?thesis
    using assms has_shape_row[OF assms(1,2)] has_shape_row[OF m assms(2)]
      has_shape_length[OF assms(1)] has_shape_length[OF m]
    by (simp add: coastal_step_def sh nth_amap2)
qed

text \<open>
  Claim C7. On a 100 x 100 heightmap with \<open>distance_to_coast = 0.1\<close>, a cell on the
  edge (edge distance 0) has mask 0.1 and the coastal step leaves it 0.37 of its value;
  a cell at edge distance 10 or more has mask 1 and keeps its value. With
  \<open>distance_to_coast = 0.9\<close> every cell of the mask is 1 and the coastal step changes
  nothing.
\<close>

theorem coastal_mask_boundary:
  assumes "has_shape hm 100 100" and "y < 100" and "x < 100"
  shows "(distance_to_coast p = 0.1 \<and> dist_to_edge 100 100 y x = 0 \<longrightarrow>
            create_coastal_mask (100, 100) 0.1 ! y ! x = 0.1
            \<and> coastal_step p hm ! y ! x = 0.37 * hm ! y ! x)
       \<and> (distance_to_coast p = 0.1 \<and> 10 \<le> dist_to_edge 100 100 y x \<longrightarrow>
            create_coastal_mask (100, 100) 0.1 ! y ! x = 1
            \<and> coastal_step p hm ! y ! x = hm ! y ! x)
       \<and> (distance_to_coast p = 0.9 \<longrightarrow>
            create_coastal_mask (100, 100) 0.9 ! y ! x = 1 \<and> coastal_step p hm = hm)"
proof (intro conjI impI)
  assume a: "distance_to_coast p = 0.1 \<and> dist_to_edge 100 100 y x = 0"
  show m: "create_coastal_mask (100, 100) 0.1 ! y ! x = 0.1"
    using a assms(2,3) by (simp add: coastal_mask_cell)
  show "coastal_step p hm ! y ! x = 0.37 * hm ! y ! x"
    using coastal_step_cell [OF assms, of p] a m by simp
next
  assume a: "distance_to_coast p = 0.1 \<and> 10 \<le> dist_to_edge 100 100 y x"
  show m: "create_coastal_mask (100, 100) 0.1 ! y ! x = 1"
    using a assms(2,3) by (simp add: coastal_mask_cell)
  show "coastal_step p hm ! y ! x = hm ! y ! x"
    using coastal_step_cell [OF assms, of p] a m by simp
next
  assume a: "distance_to_coast p = 0.9"
  show "create_coastal_mask (100, 100) 0.9 ! y ! x = 1"
    using assms(2,3) by (simp add: coastal_mask_cell)
  show "coastal_step p hm = hm"
    using a by (simp add: coastal_step_def)
qed

theorem coastal_mask_boundary_witness:
  "has_shape (replicate 100 (replicate 100 (1::real))) 100 100
   \<and> dist_to_edge 100 100 0 57 = 0
   \<and> create_coastal_mask (100, 100) 0.1 ! 0 ! 57 = 0.1
   \<and> coastal_step (default_record\<lparr>distance_to_coast := 0.1\<rparr>) (replicate 100 (replicate 100 1)) ! 0 ! 57
        = 0.37 * replicate 100 (replicate 100 1) ! 0 ! 57
   \<and> 10 \<le> dist_to_edge 100 100 50 50
   \<and> create_coastal_mask (100, 100) 0.1 ! 50 ! 50 = 1
   \<and> create_coastal_mask (100, 100) 0.9 ! 0 ! 57 = 1
   \<and> coastal_step (default_record\<lparr>distance_to_coast := 0.9\<rparr>) (replicate 100 (replicate 100 1))
        = replicate 100 (replicate 100 1)"
proof -
  let ?hm = "replicate 100 (replicate 100 (1::real))"
  have sh: "has_shape ?hm 100 100"
    by (simp add: has_shape_def list_all_iff)
  have d0: "dist_to_edge 100 100 0 57 = 0" and d50: "10 \<le> dist_to_edge 100 100 50 50"
    by (simp_all add: dist_to_edge_def)
  have c1: "distance_to_coast (default_record\<lparr>distance_to_coast := 0.1\<rparr>) = 0.1"
    and c9: "distance_to_coast (default_record\<lparr>distance_to_coast := 0.9\<rparr>) = 0.9"
    by simp_all
  show ?thesis
    using coastal_mask_boundary [OF sh, of 0 57 "default_record\<lparr>distance_to_coast := 0.1\<rparr>"]
      coastal_mask_boundary [OF sh, of 50 50 "default_record\<lparr>distance_to_coast := 0.1\<rparr>"]
      coastal_mask_boundary [OF sh, of 0 57 "default_record\<lparr>distance_to_coast := 0.9\<rparr>"]
      sh d0 d50 c1 c9
    by simp
qed

section \<open>Determinism of a seeded run\<close>

lemma same_out_Inr: "same_rng s t \<Longrightarrow> same_out (Inr (a, s)) (Inr (a, t))"
  by (simp add: same_out_def)

lemma same_out_Inl: "same_out (Inl e) (Inl e)"
  by (simp add: same_out_def)

lemma same_out_if:
  "(c \<Longrightarrow> same_out a b) \<Longrightarrow> (\<not> c \<Longrightarrow> same_out a' b')
    \<Longrightarrow> same_out (if c then a else a') (if c then b else b')"
  by simp

lemma same_out_cases:
  assumes "same_out r1 r2"
  obtains (err) e where "r1 = Inl e" "r2 = Inl e"
    | (ok) a s t where "r1 = Inr (a, s)" "r2 = Inr (a, t)" "same_rng s t"
proof (cases r1)
  case (Inl e)
  then show ?thesis using assms err by (simp add: same_out_def)
next
  case (Inr x)
  then obtain y where y: "r2 = Inr y" "fst x = fst y" "same_rng (snd x) (snd y)"
    using assms by (cases r2) (simp_all add: same_out_def)
  obtain a s where x: "x = (a, s)" by (cases x)
  obtain b t where yt: "y = (b, t)" by (cases y)
  show ?thesis using Inr y x yt ok [of a s t] by simp
qed

lemma same_out_ebind:
  assumes "same_out m1 m2"
    and "\<And>a s t. same_rng s t \<Longrightarrow> same_out (f a s) (g a t)"
  shows "same_out (ebind m1 (case_prod f)) (ebind m2 (case_prod g))"
  using assms(1)
proof (cases rule: same_out_cases)
  case (err e)
  then show ?thesis by (simp add: ebind_def same_out_def)
next
  case (ok a s t)
  then show ?thesis using assms(2) by (simp add: ebind_def)
qed

lemma same_out_ebind_pure:
  assumes "\<And>a. same_out (f a) (g a)"
  shows "same_out (ebind m f) (ebind m g)"
  using assms by (cases m) (simp_all add: same_out_def ebind_def)

lemma eq_ebind_same:
  assumes "same_out m1 m2"
    and "\<And>a s t. same_rng s t \<Longrightarrow> f a s = g a t"
  shows "ebind m1 (case_prod f) = ebind m2 (case_prod g)"
  using assms(1)
proof (cases rule: same_out_cases)
  case (err e)
  then show ?thesis by (simp add: ebind_def)
next
  case (ok a s t)
  then show ?thesis using assms(2) by (simp add: ebind_def)
qed

lemma with_rng_same:
  assumes "same_rng s t"
  shows "same_out (with_rng s f) (with_rng t f)"
proof -
  from assms obtain g where g: "rng s = Some g" "rng t = Some g"
    by (cases "rng s") (auto simp: same_rng_def)
  show ?thesis
  proof (cases "f g")
    case (Inl e)
    then show ?thesis using g by (simp add: with_rng_def ebind_def same_out_def)
  next
    case (Inr r)
    then show ?thesis using g by (simp add: with_rng_def ebind_def same_out_def same_rng_def)
  qed
qed

lemma perlin_same:
  assumes "same_rng s t"
  shows "same_out (perlin_noise_2d L sh sc oc pe s) (perlin_noise_2d L sh sc oc pe t)"
proof -
  from assms obtain g where g: "rng s = Some g" "rng t = Some g"
    by (cases "rng s") (auto simp: same_rng_def)
  show ?thesis
    using g by (simp add: perlin_noise_2d_def ebind_def same_out_def same_rng_def Let_def)
qed

lemma init_random_seeded:
  "same_out (init_random L (Some sd) s) (init_random L (Some sd) t)"
  by (simp add: init_random_def seed_rng_def ebind_def same_out_def same_rng_def Let_def)

lemma fold_err_same:
  assumes "\<And>x a s t. same_rng s t \<Longrightarrow> same_out (f x (a, s)) (f x (a, t))"
  shows "same_rng s t \<Longrightarrow> same_out (fold_err f xs (a, s)) (fold_err f xs (a, t))"
proof (induction xs arbitrary: a s t)
  case Nil
  then show ?case by (simp add: same_out_def)
next
  case (Cons x xs)
  from assms [OF Cons.prems, of x a] show ?case
  proof (cases rule: same_out_cases)
    case (err e)
    then show ?thesis by (simp add: same_out_def)
  next
    case (ok b s' t')
    then show ?thesis using Cons.IH [of s' t' b] by simp
  qed
qed

lemmas same_intros =
  same_out_ebind same_out_ebind_pure same_out_if same_out_Inr same_out_Inl perlin_same with_rng_same

lemma mountain_belt_same:
  "same_rng s t \<Longrightarrow> same_out (generate_mountain_belt L sh p s) (generate_mountain_belt L sh p t)"
  unfolding generate_mountain_belt_def Let_def by (intro same_intros)

lemma rift_valley_same:
  "same_rng s t \<Longrightarrow> same_out (generate_rift_valley L sh p s) (generate_rift_valley L sh p t)"
  unfolding generate_rift_valley_def Let_def by (intro same_intros)

lemma transform_boundary_same:
  "same_rng s t \<Longrightarrow>
    same_out (generate_transform_boundary L sh p s) (generate_transform_boundary L sh p t)"
  unfolding generate_transform_boundary_def Let_def by (intro same_intros)

lemma stable_craton_same:
  "same_rng s t \<Longrightarrow> same_out (generate_stable_craton L sh p s) (generate_stable_craton L sh p t)"
  unfolding generate_stable_craton_def Let_def by (intro same_intros)

lemma hardness_map_same:
  "same_rng s t \<Longrightarrow> same_out (generate_hardness_map L sh h s) (generate_hardness_map L sh h t)"
  unfolding generate_hardness_map_def by (intro same_intros)

lemma tectonic_base_seeded:
  "seed p = Some sd \<Longrightarrow> same_out (generate_tectonic_base L p s) (generate_tectonic_base L p t)"
  unfolding generate_tectonic_base_def Let_def
  by (simp only:)
    (intro same_intros init_random_seeded mountain_belt_same rift_valley_same
      transform_boundary_same stable_craton_same hardness_map_same)

lemma voronoi_step_same:
  "same_rng s t \<Longrightarrow> same_out (voronoi_step L p h w rc (a, s)) (voronoi_step L p h w rc (a, t))"
  unfolding voronoi_step_def by (simp only: fst_conv snd_conv) (intro same_intros)

lemma regions_same:
  "same_rng s t \<Longrightarrow> same_out (generate_regions L p s) (generate_regions L p t)"
  unfolding generate_regions_def Let_def
  by (intro same_intros fold_err_same voronoi_step_same)

lemma climate_step_same:
  "same_rng s t \<Longrightarrow>
    same_out (climate_step L p h w rg i (a, s)) (climate_step L p h w rg i (a, t))"
  unfolding climate_step_def Let_def by (simp only: fst_conv snd_conv) (intro same_intros)

lemma climate_same:
  "same_rng s t \<Longrightarrow> same_out (generate_climate L p rg s) (generate_climate L p rg t)"
  unfolding generate_climate_def Let_def
  by (intro same_intros fold_err_same climate_step_same)

lemma post_process_same:
  "same_rng s t \<Longrightarrow> same_out (post_process L hm p s) (post_process L hm p t)"
  unfolding post_process_def post_process_field_def Let_def by (intro same_intros)

text \<open>
  Claim C1. When the record holds a seed, the outcome of the five stages (the
  heightmap, or the exception that ended the run) is the same from any two states of
  the generator object and of Python's process-wide random generator: the first stage
  seeds \<open>self.rng\<close> from the record before any draw, and every later draw is taken
  from \<open>self.rng\<close>. In particular two generation runs with the same record give
  the same heightmap.
\<close>

theorem seeded_run_deterministic:
  fixes L :: "('g, 's) numlib"
  assumes "seed p = Some sd"
  shows "run_stages L p st1 = run_stages L p st2
       \<and> run_generation L p sys1 = run_generation L p sys2"
proof -
  have "run_stages L p s = run_stages L p t" for s t :: "('g, 's) gen_state"
    unfolding run_stages_def
  proof (intro eq_ebind_same tectonic_base_seeded [OF assms] regions_same climate_same)
    fix tl :: array2 and rg :: "int list list" and cm :: array2
      and s3 t3 :: "('g, 's) gen_state"
    assume same: "same_rng s3 t3"
    show "ebind (simulate_erosion L tl p cm rg)
            (\<lambda>heightmap. ebind (post_process L heightmap p s3) (\<lambda>(heightmap1, st4). Inr heightmap1))
        = ebind (simulate_erosion L tl p cm rg)
            (\<lambda>heightmap. ebind (post_process L heightmap p t3) (\<lambda>(heightmap1, st4). Inr heightmap1))"
    proof (cases "simulate_erosion L tl p cm rg")
      case (Inl e)
      then show ?thesis by (simp add: ebind_def)
    next
      case (Inr hm)
      have "ebind (post_process L hm p s3) (\<lambda>(heightmap1, st4). Inr heightmap1)
          = ebind (post_process L hm p t3) (\<lambda>(heightmap1, st4). Inr heightmap1)"
        by (intro eq_ebind_same post_process_same same) simp
      then show ?thesis using Inr by (simp add: ebind_def)
    qed
  qed
  then show ?thesis by (simp add: run_generation_def)
qed

theorem seeded_run_deterministic_witness:
  "seed (default_record\<lparr>seed := Some 42\<rparr>) = Some 42
   \<and> run_stages toy_lib (default_record\<lparr>seed := Some 42\<rparr>) \<lparr> rng = None, sysrand = 0 \<rparr>
       = run_stages toy_lib (default_record\<lparr>seed := Some 42\<rparr>) \<lparr> rng = Some 5, sysrand = 3 \<rparr>
   \<and> run_generation toy_lib (default_record\<lparr>seed := Some 42\<rparr>) 0
       = run_generation toy_lib (default_record\<lparr>seed := Some 42\<rparr>) 7"
  using seeded_run_deterministic [of "default_record\<lparr>seed := Some 42\<rparr>" 42 toy_lib
      "\<lparr> rng = None, sysrand = 0 \<rparr>" "\<lparr> rng = Some 5, sysrand = 3 \<rparr>" 0 7]
  by simp

section \<open>The range of the rescaled stages\<close>

lemma ebind_eq_Inr: "ebind m f = Inr r \<longleftrightarrow> (\<exists>a. m = Inr a \<and> f a = Inr r)"
  by (cases m) simp_all

lemma has_shape_amap: "has_shape a h w \<Longrightarrow> has_shape (amap f a) h w"
  by (simp add: has_shape_def amap_def list_all_iff)


















lemma shape_of_amap: "shape_of (amap f a) = shape_of a"
  by (cases a) (simp_all add: shape_of_def amap_def)





section \<open>The region map\<close>

lemma randint_unit: "\<exists>g'. rs_randint L g 0 1 = Inr (0, g')"
  by (simp add: rs_randint_def Let_def)

lemma try_place_2x2_first: "\<exists>g'. try_place (Suc k) L 2 2 n [] g = Inr (Some (0, 0), g')"
proof -
  obtain g1 where 1: "rs_randint L g 0 1 = Inr (0, g1)" using randint_unit [of L g] by blast
  obtain g2 where 2: "rs_randint L g1 0 1 = Inr (0, g2)" using randint_unit [of L g1] by blast
  show ?thesis using 1 2 by (simp add: too_close_def)
qed

lemma try_place_2x2_taken:
  assumes "(0, 0) \<in> set centers" "1 \<le> n"
  shows "\<exists>g'. try_place k L 2 2 n centers g = Inr (None, g')"
proof (induction k arbitrary: g)
  case 0
  show ?case by simp
next
  case (Suc k)
  obtain g1 where 1: "rs_randint L g 0 1 = Inr (0, g1)" using randint_unit [of L g] by blast
  obtain g2 where 2: "rs_randint L g1 0 1 = Inr (0, g2)" using randint_unit [of L g1] by blast
  have "too_close 2 2 n (0, 0) centers"
    using assms by (auto simp: too_close_def list_ex_iff intro!: bexI [of _ "(0, 0)"])
  then show ?case using 1 2 Suc [of g2] by simp
qed

lemma place_centers_2x2_taken:
  assumes "(0, 0) \<in> set centers" "1 \<le> n"
  shows "\<exists>g'. place_centers is L 2 2 n centers g
     = Inr (centers @ map (\<lambda>i. (py_int (real_of_int (2 * (int i mod 2 + 1)) / 3),
                                 py_int (real_of_int (2 * (int i div 2 + 1)) / 3))) is, g')"
  using assms(1)
proof (induction "is" arbitrary: centers g)
  case Nil
  show ?case by simp
next
  case (Cons i rest)
  obtain g1 where 1: "try_place 100 L 2 2 n centers g = Inr (None, g1)"
    using try_place_2x2_taken [OF Cons.prems assms(2), of 100 L g] by blast
  let ?c = "(py_int (real_of_int (2 * (int i mod 2 + 1)) / 3),
             py_int (real_of_int (2 * (int i div 2 + 1)) / 3))"
  have "(0, 0) \<in> set (centers @ [?c])" using Cons.prems by simp
  from Cons.IH [OF this, of g1] show ?case using 1 by (simp add: Let_def)
qed

lemma place_centers_2x2:
  assumes "1 \<le> n"
  shows "\<exists>g'. place_centers (i # rest) L 2 2 n [] g
     = Inr ((0, 0) # map (\<lambda>i. (py_int (real_of_int (2 * (int i mod 2 + 1)) / 3),
                                  py_int (real_of_int (2 * (int i div 2 + 1)) / 3))) rest, g')"
proof -
  obtain g1 where 1: "try_place 100 L 2 2 n [] g = Inr (Some (0, 0), g1)"
    using try_place_2x2_first [of 99 L n g] by auto
  from place_centers_2x2_taken [of "[(0, 0)]" n rest L g1] assms
  show ?thesis using 1 by simp
qed

lemma upt_5: "[0..<5] = [0, 1, 2, 3, 4]" and upt_2: "[0..<2] = [0, 1]"
  by (simp_all add: upt_rec)

lemma py_int_vals:
  "py_int (2 / 3) = 0" "py_int (4 / 3) = 1" "py_int 2 = 2"
  by (simp_all add: py_int_def)

lemma tabulate2_2x2: "tabulate2 2 2 f = [[f 0 0, f 0 1], [f 1 0, f 1 1]]"
  by (simp add: tabulate2_def upt_2)

lemma regions_crowded:
  "\<exists>st'. generate_regions L crowded_params \<lparr> rng = Some g, sysrand = s \<rparr> = Inr ([[0, 1], [2, 3]], st')"
proof -
  obtain g' where pc: "place_centers [0..<5] L 2 2 5 [] g
      = Inr ([(0, 0), (1, 0), (0, 1), (1, 1), (0, 2)], g')"
    using place_centers_2x2 [of 5 0 "[1, 2, 3, 4]" L g] by (auto simp: upt_5 py_int_vals simp del: place_centers.simps)
  show ?thesis
    using pc
    by (simp add: generate_regions_def crowded_params_def default_record_def with_rng_def
        enumerate_eq_zip upt_5 voronoi_step_def tabulate2_2x2 claim_cell_def center_distance_def
        amap_def ebind_def)
qed

lemma regions_pair:
  "\<exists>st'. generate_regions L pair_params \<lparr> rng = Some g, sysrand = s \<rparr> = Inr ([[0, 1], [0, 1]], st')"
proof -
  obtain g' where pc: "place_centers [0..<2] L 2 2 2 [] g = Inr ([(0, 0), (1, 0)], g')"
    using place_centers_2x2 [of 2 0 "[1]" L g] by (auto simp: upt_2 py_int_vals simp del: place_centers.simps)
  show ?thesis
    using pc
    by (simp add: generate_regions_def pair_params_def default_record_def with_rng_def
        enumerate_eq_zip upt_2 voronoi_step_def tabulate2_2x2 claim_cell_def center_distance_def
        amap_def ebind_def)
qed

lemma place_centers_length:
  "place_centers is L w h n cs0 g = Inr (cs, g') \<Longrightarrow> length cs = length cs0 + length is"
proof (induction "is" arbitrary: cs0 g)
  case Nil
  then show ?case by simp
next
  case (Cons i rest)
  then show ?case
    by (auto simp: Let_def split: sum.splits prod.splits option.splits)
qed

lemma with_rng_Inr:
  "with_rng st f = Inr (a, st1) \<Longrightarrow>
    \<exists>g g'. rng st = Some g \<and> f g = Inr (a, g') \<and> st1 = st\<lparr>rng := Some g'\<rparr>"
  by (auto simp: with_rng_def ebind_eq_Inr split: option.splits)

lemma voronoi_step_Inr:
  assumes "voronoi_step L p h w rc (A, s) = Inr (A1, s1)"
  shows "\<exists>pert. A1 = tabulate2 (nat h) (nat w)
            (\<lambda>y x. claim_cell (int (fst rc)) (center_distance (snd rc) pert y x) (A ! y ! x))
          \<and> (region_contrast p \<le> 0.3 \<longrightarrow> pert = None)"
  using assms by (auto simp: voronoi_step_def ebind_eq_Inr split: if_splits prod.splits)

lemma voronoi_fold_shape:
  "fold_err (voronoi_step L p h w) ics (A, s) = Inr (A', s') \<Longrightarrow> has_shape A (nat h) (nat w)
    \<Longrightarrow> has_shape A' (nat h) (nat w)"
proof (induction ics arbitrary: A s)
  case Nil
  then show ?case by simp
next
  case (Cons rc rest)
  then obtain A1 s1 where 1: "voronoi_step L p h w rc (A, s) = Inr (A1, s1)"
    and 2: "fold_err (voronoi_step L p h w) rest (A1, s1) = Inr (A', s')"
    by (auto split: sum.splits)
  have "has_shape A1 (nat h) (nat w)"
    using voronoi_step_Inr [OF 1] by (auto simp: has_shape_tabulate2)
  then show ?case using Cons.IH [OF 2] by simp
qed

lemma voronoi_fold_cell:
  assumes "fold_err (voronoi_step L p h w) ics (A, s) = Inr (A', s')" "y < nat h" "x < nat w"
  shows "\<exists>ds. length ds = length ics
       \<and> A' ! y ! x = fold (\<lambda>id. claim_cell (int (fst id)) (snd id)) (zip (map fst ics) ds) (A ! y ! x)
       \<and> (region_contrast p \<le> 0.3 \<longrightarrow> ds = map (\<lambda>rc. center_distance (snd rc) None y x) ics)"
  using assms(1)
proof (induction ics arbitrary: A s)
  case Nil
  then show ?case by simp
next
  case (Cons rc rest)
  then obtain A1 s1 where 1: "voronoi_step L p h w rc (A, s) = Inr (A1, s1)"
    and 2: "fold_err (voronoi_step L p h w) rest (A1, s1) = Inr (A', s')"
    by (auto split: sum.splits)
  from voronoi_step_Inr [OF 1] obtain pert where
    A1: "A1 = tabulate2 (nat h) (nat w)
            (\<lambda>y x. claim_cell (int (fst rc)) (center_distance (snd rc) pert y x) (A ! y ! x))"
    and pert: "region_contrast p \<le> 0.3 \<longrightarrow> pert = None" by blast
  have c1: "A1 ! y ! x = claim_cell (int (fst rc)) (center_distance (snd rc) pert y x) (A ! y ! x)"
    using assms(2,3) by (simp add: A1 nth_tabulate2)
  from Cons.IH [OF 2] obtain ds where ds: "length ds = length rest"
    "A' ! y ! x = fold (\<lambda>id. claim_cell (int (fst id)) (snd id)) (zip (map fst rest) ds) (A1 ! y ! x)"
    "region_contrast p \<le> 0.3 \<longrightarrow> ds = map (\<lambda>rc. center_distance (snd rc) None y x) rest"
    by blast
  show ?case
    by (rule exI [of _ "center_distance (snd rc) pert y x # ds"]) (use ds c1 pert in auto)
qed

lemma claims_fst:
  "fst (fold (\<lambda>id. claim_cell (int (fst id)) (snd id)) ids c) \<in> insert (fst c) (int ` fst ` set ids)"
proof (induction ids arbitrary: c)
  case Nil
  show ?case by simp
next
  case (Cons a ids)
  from Cons [of "claim_cell (int (fst a)) (snd a) c"] show ?case
    by (auto simp: claim_cell_def split: if_splits)
qed

lemma claims_keep:
  "snd c = Some 0 \<Longrightarrow> \<forall>id \<in> set ids. 0 \<le> snd id
    \<Longrightarrow> fold (\<lambda>id. claim_cell (int (fst id)) (snd id)) ids c = c"
  by (induction ids) (auto simp: claim_cell_def)

lemma claims_own:
  assumes "\<forall>id \<in> set ids. 0 < snd id \<or> (snd id = 0 \<and> fst id = k)"
    and "snd c = None \<or> (\<exists>d>0. snd c = Some d)"
  shows "(let r = fold (\<lambda>id. claim_cell (int (fst id)) (snd id)) ids c
          in (r = (int k, Some 0) \<or> snd r = None \<or> (\<exists>d>0. snd r = Some d))
             \<and> ((k, 0) \<in> set ids \<longrightarrow> r = (int k, Some 0)))"
  using assms
proof (induction ids arbitrary: c)
  case Nil
  then show ?case by simp
next
  case (Cons a ids)
  have rest: "\<forall>id \<in> set ids. 0 < snd id \<or> (snd id = 0 \<and> fst id = k)" using Cons.prems(1) by simp
  have nonneg: "\<forall>id \<in> set ids. 0 \<le> snd id" using rest by auto
  show ?case
  proof (cases "0 < snd a")
    case True
    have q: "snd (claim_cell (int (fst a)) (snd a) c) = None
        \<or> (\<exists>d>0. snd (claim_cell (int (fst a)) (snd a) c) = Some d)"
      using Cons.prems(2) True by (auto simp: claim_cell_def)
    have "a \<noteq> (k, 0)" using True by auto
    then show ?thesis using Cons.IH [OF rest q] by (simp add: Let_def)
  next
    case False
    then have a: "snd a = 0" "fst a = k" using Cons.prems(1) by auto
    have "claim_cell (int (fst a)) (snd a) c = (int k, Some 0)"
      using Cons.prems(2) a by (auto simp: claim_cell_def)
    then show ?thesis using claims_keep [OF _ nonneg, of "(int k, Some 0)"] by (simp add: Let_def)
  qed
qed

lemma center_distance_zero:
  "center_distance c None y x = 0 \<longleftrightarrow> c = (int x, int y)"
  by (cases c) (auto simp: center_distance_def sum_power2_eq_zero_iff simp flip: of_int_add of_int_power)

lemma center_distance_nonneg: "0 \<le> center_distance c None y x"
  by (simp add: center_distance_def)

lemma in_concat_shape:
  assumes "has_shape a h w"
  shows "v \<in> set (concat a) \<longleftrightarrow> (\<exists>y<h. \<exists>x<w. v = a ! y ! x)"
proof
  assume "v \<in> set (concat a)"
  then obtain row where "row \<in> set a" "v \<in> set row" by auto
  then obtain y x where "y < length a" "row = a ! y" "x < length row" "v = row ! x"
    by (metis in_set_conv_nth)
  then show "\<exists>y<h. \<exists>x<w. v = a ! y ! x"
    using assms has_shape_row [OF assms, of y] by (auto simp: has_shape_def)
next
  assume "\<exists>y<h. \<exists>x<w. v = a ! y ! x"
  then obtain y x where yx: "y < h" "x < w" "v = a ! y ! x" by blast
  then have "a ! y \<in> set a" "v \<in> set (a ! y)"
    using assms has_shape_row [OF assms, of y] by (auto simp: has_shape_def)
  then show "v \<in> set (concat a)" by auto
qed

lemma nth_amap: "y < length a \<Longrightarrow> x < length (a ! y) \<Longrightarrow> amap f a ! y ! x = f (a ! y ! x)"
  by (simp add: amap_def)

lemma map_snd_enumerate_fun: "map (\<lambda>rc. f (snd rc)) (enumerate n xs) = map f xs"
  by (induction xs arbitrary: n) simp_all

lemma generate_regions_Inr:
  assumes "generate_regions L p st = Inr (rm, st')" and "1 < num_regions p"
  shows "\<exists>g cs g' cells.
      rng st = Some g
      \<and> place_centers [0..<nat (num_regions p)] L (fst (size_p p)) (snd (size_p p))
            (num_regions p) [] g = Inr (cs, g')
      \<and> fold_err (voronoi_step L p (snd (size_p p)) (fst (size_p p))) (enumerate 0 cs)
            (tabulate2 (nat (snd (size_p p))) (nat (fst (size_p p))) (\<lambda>y x. (0, None)),
             st\<lparr>rng := Some g'\<rparr>) = Inr (cells, st')
      \<and> rm = amap fst cells"
proof -
  from assms obtain cs st1 cells where
    w: "with_rng st (place_centers [0..<nat (num_regions p)] L (fst (size_p p)) (snd (size_p p))
          (num_regions p) []) = Inr (cs, st1)"
    and f: "fold_err (voronoi_step L p (snd (size_p p)) (fst (size_p p))) (enumerate 0 cs)
            (tabulate2 (nat (snd (size_p p))) (nat (fst (size_p p))) (\<lambda>y x. (0, None)), st1)
              = Inr (cells, st')"
    and r: "rm = amap fst cells"
    by (auto simp: generate_regions_def Let_def ebind_eq_Inr split: if_splits prod.splits)
  from with_rng_Inr [OF w] show ?thesis using f r by blast
qed

text \<open>
  Claim C3 as stated fails. On a 2 x 2 map with five regions and no perturbation every
  random candidate is the cell \<open>(0, 0)\<close>, the other four centres come from the
  fallback grid, the fifth of them at \<open>(0, 2)\<close> below the map, and the four cells go
  to the regions 0 to 3: region 4 has no cell. (Whatever the code did, four cells
  cannot hold five regions.)
\<close>

theorem regions_missing_on_small_map:
  "\<not> isl (generate_regions toy_lib crowded_params \<lparr> rng = Some 0, sysrand = 0 \<rparr>)
   \<and> fst (projr (generate_regions toy_lib crowded_params \<lparr> rng = Some 0, sysrand = 0 \<rparr>))
       = [[0, 1], [2, 3]]
   \<and> num_regions crowded_params = 5
   \<and> 4 \<notin> set (concat (fst (projr (generate_regions toy_lib crowded_params
                                       \<lparr> rng = Some 0, sysrand = 0 \<rparr>))))"
proof -
  obtain st' where "generate_regions toy_lib crowded_params \<lparr> rng = Some 0, sysrand = 0 \<rparr>
      = Inr ([[0, 1], [2, 3]], st')"
    using regions_crowded [of toy_lib 0 0] by blast
  then show ?thesis by (simp add: crowded_params_def)
qed

text \<open>
  Claim C3, as amended. For more than one region, whenever \<open>generate_regions\<close>
  returns, the region map has the shape \<open>(height, width)\<close> and each of its values is
  one of \<open>0, ..., N - 1\<close>; \<open>N\<close> centres were placed; and when no perturbation is
  applied (\<open>region_contrast\<close> at most 0.3) and the centres are pairwise distinct cells
  of the map, every region holds the cell of its centre, so the values are exactly
  \<open>0, ..., N - 1\<close>.
\<close>

theorem regions_values:
  fixes L :: "('g, 's) numlib"
  assumes "generate_regions L p st = Inr (rm, st')" and "1 < num_regions p"
  shows "has_shape rm (nat (snd (size_p p))) (nat (fst (size_p p)))
       \<and> set (concat rm) \<subseteq> {0..<num_regions p}
       \<and> (\<exists>g cs g'. rng st = Some g
            \<and> place_centers [0..<nat (num_regions p)] L (fst (size_p p)) (snd (size_p p))
                  (num_regions p) [] g = Inr (cs, g')
            \<and> length cs = nat (num_regions p)
            \<and> (region_contrast p \<le> 0.3 \<and> distinct cs
                 \<and> (\<forall>c \<in> set cs. 0 \<le> fst c \<and> fst c < fst (size_p p)
                                   \<and> 0 \<le> snd c \<and> snd c < snd (size_p p))
               \<longrightarrow> set (concat rm) = {0..<num_regions p}))"
proof -
  let ?h = "snd (size_p p)" and ?w = "fst (size_p p)" and ?n = "num_regions p"
  let ?init = "tabulate2 (nat ?h) (nat ?w) (\<lambda>y x. (0::int, None :: real option))"
  let ?claim = "\<lambda>id :: nat \<times> real. claim_cell (int (fst id)) (snd id)"
  from generate_regions_Inr [OF assms] obtain g cs g' cells where
    g: "rng st = Some g"
    and pc: "place_centers [0..<nat ?n] L ?w ?h ?n [] g = Inr (cs, g')"
    and fe: "fold_err (voronoi_step L p ?h ?w) (enumerate 0 cs) (?init, st\<lparr>rng := Some g'\<rparr>)
               = Inr (cells, st')"
    and rm: "rm = amap fst cells" by blast
  have len: "length cs = nat ?n" using place_centers_length [OF pc] by simp
  have shc: "has_shape cells (nat ?h) (nat ?w)"
    using voronoi_fold_shape [OF fe] by (simp add: has_shape_tabulate2)
  then have shr: "has_shape rm (nat ?h) (nat ?w)" by (simp add: rm has_shape_amap)
  have cell: "\<exists>ds. length ds = length cs
        \<and> rm ! y ! x = fst (fold ?claim (zip [0..<length cs] ds) (0, None))
        \<and> (region_contrast p \<le> 0.3 \<longrightarrow> ds = map (\<lambda>c. center_distance c None y x) cs)"
    if yx: "y < nat ?h" "x < nat ?w" for y x
  proof -
    from voronoi_fold_cell [OF fe yx] obtain ds where
      ds: "length ds = length (enumerate 0 cs)"
        "cells ! y ! x = fold ?claim (zip (map fst (enumerate 0 cs)) ds) (?init ! y ! x)"
        "region_contrast p \<le> 0.3 \<longrightarrow> ds = map (\<lambda>rc. center_distance (snd rc) None y x) (enumerate 0 cs)"
      by blast
    have e: "map (\<lambda>rc. center_distance (snd rc) None y x) (enumerate 0 cs)
            = map (\<lambda>c. center_distance c None y x) cs"
      by (rule map_snd_enumerate_fun)
    have "rm ! y ! x = fst (cells ! y ! x)"
      using yx shc has_shape_row [OF shc yx(1)] by (simp add: rm nth_amap has_shape_def)
    then show ?thesis
      using ds e yx by (intro exI [of _ ds]) (simp add: nth_tabulate2)
  qed
  have sub: "set (concat rm) \<subseteq> {0..<?n}"
  proof
    fix v assume "v \<in> set (concat rm)"
    then obtain y x where yx: "y < nat ?h" "x < nat ?w" and v: "v = rm ! y ! x"
      using in_concat_shape [OF shr] by blast
    from cell [OF yx] obtain ds where
      "rm ! y ! x = fst (fold ?claim (zip [0..<length cs] ds) (0, None))" by blast
    then have "v \<in> insert 0 (int ` fst ` set (zip [0..<length cs] ds))"
      using claims_fst [of "zip [0..<length cs] ds" "(0, None)"] v by simp
    then have "v = 0 \<or> (\<exists>i<length cs. v = int i)"
      by (auto dest!: set_zip_leftD)
    then show "v \<in> {0..<?n}" using len assms(2) by auto
  qed
  have full: "set (concat rm) = {0..<?n}"
    if a: "region_contrast p \<le> 0.3" "distinct cs"
      "\<forall>c \<in> set cs. 0 \<le> fst c \<and> fst c < ?w \<and> 0 \<le> snd c \<and> snd c < ?h"
  proof
    show "set (concat rm) \<subseteq> {0..<?n}" by (rule sub)
    show "{0..<?n} \<subseteq> set (concat rm)"
    proof
      fix k assume "k \<in> {0..<?n}"
      then have k: "nat k < length cs" "int (nat k) = k" using len by auto
      define c where "c = cs ! nat k"
      have cin: "c \<in> set cs" using k by (simp add: c_def)
      define y x where "y = nat (snd c)" and "x = nat (fst c)"
      have yx: "y < nat ?h" "x < nat ?w" and cxy: "c = (int x, int y)"
        using a(3) cin by (auto simp: y_def x_def prod_eq_iff)
      from cell [OF yx] a(1) have
        r: "rm ! y ! x = fst (fold ?claim
              (zip [0..<length cs] (map (\<lambda>c. center_distance c None y x) cs)) (0, None))"
        by auto
      let ?ids = "zip [0..<length cs] (map (\<lambda>c. center_distance c None y x) cs)"
      have ids: "\<forall>id \<in> set ?ids. 0 < snd id \<or> (snd id = 0 \<and> fst id = nat k)"
      proof
        fix id assume "id \<in> set ?ids"
        then obtain j where j: "j < length cs" "id = (j, center_distance (cs ! j) None y x)"
          by (auto simp: set_zip)
        show "0 < snd id \<or> (snd id = 0 \<and> fst id = nat k)"
        proof (cases "center_distance (cs ! j) None y x = 0")
          case True
          then have "cs ! j = cs ! nat k" by (simp add: center_distance_zero cxy [symmetric] c_def)
          then have "j = nat k" using a(2) j(1) k(1) by (simp add: nth_eq_iff_index_eq)
          then show ?thesis using True j by simp
        next
          case False
          then show ?thesis using center_distance_nonneg [of "cs ! j" y x] j by simp
        qed
      qed
      have "center_distance (cs ! nat k) None y x = 0"
        by (simp add: center_distance_zero cxy [symmetric] c_def)
      then have own: "(nat k, 0) \<in> set ?ids"
        using k(1) by (auto simp: set_zip intro!: exI [of _ "nat k"])
      from claims_own [OF ids, of "(0, None)"] own
      have "fold ?claim ?ids (0, None) = (int (nat k), Some 0)" by (simp add: Let_def)
      then have "rm ! y ! x = k" using r k(2) by simp
      then show "k \<in> set (concat rm)" using in_concat_shape [OF shr] yx by blast
    qed
  qed
  show ?thesis using shr sub g pc len full by blast
qed

theorem regions_values_witness:
  "1 < num_regions pair_params
   \<and> \<not> isl (generate_regions toy_lib pair_params \<lparr> rng = Some 0, sysrand = 0 \<rparr>)
   \<and> fst (projr (generate_regions toy_lib pair_params \<lparr> rng = Some 0, sysrand = 0 \<rparr>)) = [[0, 1], [0, 1]]
   \<and> has_shape [[0, 1], [0, 1 :: int]] 2 2
   \<and> set (concat [[0, 1], [0, 1 :: int]]) \<subseteq> {0..<2}
   \<and> set (concat [[0, 1], [0, 1 :: int]]) = {0, 1}"
proof -
  obtain st' where r: "generate_regions toy_lib pair_params \<lparr> rng = Some 0, sysrand = 0 \<rparr>
      = Inr ([[0, 1], [0, 1]], st')"
    using regions_pair [of toy_lib 0 0] by blast
  have n: "1 < num_regions pair_params" "num_regions pair_params = 2"
    "size_p pair_params = (2, 2)"
    by (simp_all add: pair_params_def default_record_def)
  from regions_values [OF r n(1)] have
    "has_shape [[0, 1], [0, 1 :: int]] 2 2 \<and> set (concat [[0, 1], [0, 1 :: int]]) \<subseteq> {0..<2}"
    using n(2,3) by simp
  then show ?thesis using r n(1) by auto
qed

end
